theory Spec2Isabelle
  imports Main "HOL-Library.Word"
begin

unbundle bit_operations_syntax

section \<open>The buyer-side trade engine of BitWrk (client/buy.go)\<close>

text \<open>
  A shallow embedding of \<^verbatim>\<open>client/buy.go\<close>. Every method of \<^verbatim>\<open>BuyActivity\<close> becomes a
  function from the state (the activity record plus the trace of effects on the outside
  world) to an outcome and the new state. Calls that leave the file (the coordinator, the
  HTTP client, the content-addressable file store, the crypto libraries, the methods of
  the embedded \<^verbatim>\<open>Trade\<close>) are looked up in an environment record, so that every theorem
  holds for every behaviour of the collaborators. Log output is not modelled, except
  that a log statement which dereferences the worker URL panics without one.
\<close>

subsection \<open>Values\<close>

type_synonym byte = "8 word"

text \<open>A Go \<^verbatim>\<open>error\<close> is modelled by its message; \<^verbatim>\<open>nil\<close> is \<open>None\<close>.\<close>

type_synonym error = string

text \<open>
  A function of the source either returns, panics (an explicit \<^verbatim>\<open>panic\<close> or a nil
  dereference) or blocks forever in a wait.
\<close>

datatype 'a outcome = Returns 'a | Panics string | Blocks

text \<open>
  A \<^verbatim>\<open>cafs.File\<close> is a handle to stored content. \<^verbatim>\<open>Duplicate()\<close> makes a new handle to
  the same content.
\<close>

datatype File = Stored "byte list" | Duplicate File

fun content :: "File \<Rightarrow> byte list" where
  "content (Stored c) = c"
| "content (Duplicate f) = content f"

datatype Phase = PhaseEstablishing | PhaseBuyerEstablished | PhaseSellerEstablished
  | PhaseTransmitting | PhaseWorking | PhaseUnverified | PhaseFinished | PhaseOther

datatype TxState = StateActive | StateRetired

record Transaction =
  State :: TxState
  Phase :: Phase
  WorkerURL :: "string option"
  Seller :: string
  ResultDecryptionKey :: "byte list"

record SellActivity =
  sellKey :: string
  sellAlive :: bool
  sellResultFile :: "File option"

text \<open>
  The fields of \<^verbatim>\<open>Trade\<close> that \<^verbatim>\<open>buy.go\<close> reads or writes; \<open>key\<close> is what \<^verbatim>\<open>GetKey()\<close>
  returns. The declaration of \<^verbatim>\<open>Trade\<close> is not in \<^verbatim>\<open>buy.go\<close>. The fields that the source
  tests against \<^verbatim>\<open>nil\<close> are options (\<open>localMatch\<close>, \<open>resultFile\<close>, \<open>lastError\<close>, and
  \<open>WorkerURL\<close> of the transaction); the others are held by their values, as every path
  through \<^verbatim>\<open>PerformBuy\<close> assigns them before it reads them.
\<close>

record BuyActivity =
  key :: string
  workFile :: File
  buyerSecret :: "byte list"
  encResultFile :: File
  encResultHashSig :: string
  encResultKey :: "byte list"
  resultFile :: "File option"
  tx :: Transaction
  txId :: string
  identity :: string
  localMatch :: "SellActivity option"
  bytesToTransfer :: int
  bytesTransferred :: int
  alive :: bool
  lastError :: "error option"

text \<open>
  \<^verbatim>\<open>remotesync.SyncInfo\<close>: the chunk hashes of the work file and the permutation, which
  is recorded by the setter that was called on it.
\<close>

datatype Permutation = NoPermutation | TrivialPermutation | Permutation "nat list"

record SyncInfo =
  Chunks :: "byte list list"
  Perm :: Permutation

definition SetTrivialPermutation :: "SyncInfo \<Rightarrow> SyncInfo" where
  "SetTrivialPermutation si = si\<lparr>Perm := TrivialPermutation\<rparr>"

definition SetPermutation :: "nat list \<Rightarrow> SyncInfo \<Rightarrow> SyncInfo" where
  "SetPermutation p si = si\<lparr>Perm := Permutation p\<rparr>"

text \<open>The anonymous struct decoded from the seller's answer to OPTIONS.\<close>

record caps =
  Adler32Chunking :: bool
  GZIPCompression :: bool
  SyncInfo :: bool

subsection \<open>Effects\<close>

text \<open>
  The goroutines started in \<^verbatim>\<open>buy.go\<close>, with the values their closures capture. The
  three producers write a request body into a pipe that an HTTP POST reads.
\<close>

datatype goroutine =
    GoPollTransaction
  | GoFinishBuy
  | GoWatchdog
  | GoSendWork
  | GoSendSyncInfo SyncInfo bool bool
  | GoSendChunkData "byte list" bool SyncInfo
  | GoPostTicket string

datatype body = NoBody | Pipe goroutine | Values "(string \<times> string) list" | Buffer "(string \<times> string) list"

record request =
  Method :: string
  URL :: string
  Header :: "(string \<times> string) list"
  reqBody :: body

record response =
  StatusCode :: nat
  Status :: string
  AssistHeader :: string
  respBody :: "byte list"

text \<open>
  What the outside world sees, in the order in which one thread of control does it.
  \<open>EvGo\<close> is the start of a goroutine; what the goroutine does is a trace of its own.
\<close>

datatype event =
    EvEstablishBuyer string string "byte list" "byte list"
  | EvAcceptResult string string
  | EvReturnTransmissionToken
  | EvGo goroutine
  | EvAbortPolling
  | EvExitWatchdog
  | EvScopedTransport
  | EvCloseTransport
  | EvHttp request
  | EvInitNode string string
  | EvExitNode string
  | EvSetNodeInterested string bool
  | EvNewTicket string string
  | EvCreate string
  | EvDispose string
  | EvClose string
  | EvCreateFormFile string string
  | EvWriteField string string
  | EvCopyWork File
  | EvWriteSyncInfo bool SyncInfo
  | EvWriteChunkData File "byte list" Permutation
  | EvProgress int int
  | EvCloseMultipart
  | EvCloseCompressor
  | EvClosePipe "error option"
  | EvPanic string

record state =
  act :: BuyActivity
  events :: "event list"

definition emit :: "event \<Rightarrow> state \<Rightarrow> state" where
  "emit e s = s\<lparr>events := events s @ [e]\<rparr>"

definition execSync :: "(BuyActivity \<Rightarrow> BuyActivity) \<Rightarrow> state \<Rightarrow> state" where
  "execSync f s = s\<lparr>act := f (act s)\<rparr>"

text \<open>Sequencing: the continuation runs only when the first part returns.\<close>

definition andThen ::
  "'a outcome \<times> state \<Rightarrow> ('a \<Rightarrow> state \<Rightarrow> 'b outcome \<times> state) \<Rightarrow> 'b outcome \<times> state" where
  "andThen m k = (case m of
      (Returns x, s) \<Rightarrow> k x s
    | (Panics p, s) \<Rightarrow> (Panics p, s)
    | (Blocks, s) \<Rightarrow> (Blocks, s))"

text \<open>
  Go's \<^verbatim>\<open>defer\<close>: the deferred call runs when the body returns or panics, and does not
  run while the body blocks.
\<close>

definition deferring :: "(state \<Rightarrow> state) \<Rightarrow> 'a outcome \<times> state \<Rightarrow> 'a outcome \<times> state" where
  "deferring d m = (case m of
      (Blocks, s) \<Rightarrow> (Blocks, s)
    | (r, s) \<Rightarrow> (r, d s))"

subsection \<open>The collaborators\<close>

text \<open>
  One wake-up of a waiter: a value read from the interrupt channel (with the error that
  the wait then returns), or a mutation of the watched state by another thread.
\<close>

datatype 's wake = Interrupt error | Mutation "'s \<Rightarrow> 's"

record env =
  sha256_Sum :: "byte list \<Rightarrow> byte list"
  aes_Encrypt :: "byte list \<Rightarrow> 128 word \<Rightarrow> 128 word"
  cafs_Key :: "byte list \<Rightarrow> byte list"
  cafs_IsChunked :: "byte list \<Rightarrow> bool"
  cafs_NumChunks :: "byte list \<Rightarrow> int"
  cafs_Chunks :: "byte list \<Rightarrow> byte list list"
  String :: "byte list \<Rightarrow> string"
  HandprintFromSyncInfo :: "SyncInfo \<Rightarrow> string"
  url_Parse :: "string \<Rightarrow> error + string"
  pseudorand_Perm :: "nat \<Rightarrow> nat list"
  json_Decode :: "byte list \<Rightarrow> error + caps"
  json_Unmarshal :: "string \<Rightarrow> string list \<times> error option"
  fmt_q :: "byte list \<Rightarrow> string"
  FormDataContentType :: string
  MaxNumberOfChunksInWorkFile :: int
  rand_Reader :: "byte list"
  NewRequest :: "string \<Rightarrow> string \<Rightarrow> error option"
  client_Do :: "request \<Rightarrow> error + response"
  io_err :: "string \<Rightarrow> error option"
  WriteChunkData :: "File \<Rightarrow> byte list \<Rightarrow> Permutation \<Rightarrow> (int \<times> int) list"
  SignMessage :: "string \<Rightarrow> string \<Rightarrow> error + string"
  SendTxMessageEstablishBuyer :: "string \<Rightarrow> string \<Rightarrow> byte list \<Rightarrow> byte list \<Rightarrow> error option"
  SendTxMessageAcceptResult :: "string \<Rightarrow> string \<Rightarrow> error option"
  awaitClearance :: "BuyActivity \<Rightarrow> error option \<times> BuyActivity"
  beginRemoteTrade :: "BuyActivity \<Rightarrow> error option \<times> BuyActivity"
  waitForTransactionPhase :: "Phase \<Rightarrow> Phase list \<Rightarrow> BuyActivity \<Rightarrow> error option \<times> BuyActivity"
  sell_wakes :: "SellActivity wake list"
  tx_wakes :: "(Transaction \<Rightarrow> Transaction) list"


text \<open>What a file handle answers depends on its content only (the store is content-addressed).\<close>

definition Key :: "env \<Rightarrow> File \<Rightarrow> byte list" where
  "Key env f = cafs_Key env (content f)"

definition IsChunked :: "env \<Rightarrow> File \<Rightarrow> bool" where
  "IsChunked env f = cafs_IsChunked env (content f)"

definition NumChunks :: "env \<Rightarrow> File \<Rightarrow> int" where
  "NumChunks env f = cafs_NumChunks env (content f)"

definition SetChunksFromFile :: "env \<Rightarrow> File \<Rightarrow> SyncInfo \<Rightarrow> SyncInfo" where
  "SetChunksFromFile env f si = si\<lparr>Chunks := cafs_Chunks env (content f)\<rparr>"

text \<open>
  \<^verbatim>\<open>io.ReadFull(r, buf)\<close> on a reader that holds the bytes \<open>src\<close>: exactly \<open>n\<close> bytes, or
  an error when the reader ends before.
\<close>

definition ReadFull :: "byte list \<Rightarrow> nat \<Rightarrow> error + byte list" where
  "ReadFull src n =
     (if n \<le> length src then Inr (take n src)
      else if src = [] then Inl ''EOF'' else Inl ''unexpected EOF'')"

text \<open>Decimal formatting, for \<^verbatim>\<open>%d\<close> and \<^verbatim>\<open>strconv.Itoa\<close>.\<close>

fun Itoa_nat :: "nat \<Rightarrow> string" where
  "Itoa_nat n =
     (if n < 10 then [''0123456789'' ! n]
      else Itoa_nat (n div 10) @ [''0123456789'' ! (n mod 10)])"

declare Itoa_nat.simps [simp del]

definition Itoa :: "int \<Rightarrow> string" where
  "Itoa i = (if i < 0 then ''-'' @ Itoa_nat (nat (- i)) else Itoa_nat (nat i))"

text \<open>
  A \<^verbatim>\<open>hash.Hash\<close> is the bytes written to it so far. \<^verbatim>\<open>Sum(b)\<close> appends the digest to
  the slice \<open>b\<close>; called on \<^verbatim>\<open>arr[:0]\<close> it fills the array \<open>arr\<close> in place as long as the
  digest fits, and leaves the array alone when Go has to allocate a longer slice.
\<close>

definition hash_Write :: "byte list \<Rightarrow> byte list \<Rightarrow> byte list" where
  "hash_Write h bs = h @ bs"

definition Sum_into :: "env \<Rightarrow> byte list \<Rightarrow> byte list \<Rightarrow> byte list" where
  "Sum_into env h arr =
     (let d = sha256_Sum env h
      in if length d \<le> length arr then d @ drop (length d) arr else arr)"

text \<open>
  \<^verbatim>\<open>aes.NewCipher\<close> accepts keys of 16, 24 or 32 bytes. \<^verbatim>\<open>cipher.NewOFB\<close> is output
  feedback mode: the block cipher is iterated on the initialization vector and the
  blocks, as bytes, form the key stream. \<^verbatim>\<open>cipher.StreamReader\<close> XORs the key stream onto
  what it reads.
\<close>

definition aes_NewCipher :: "env \<Rightarrow> byte list \<Rightarrow> error + (128 word \<Rightarrow> 128 word)" where
  "aes_NewCipher env k =
     (if length k = 16 \<or> length k = 24 \<or> length k = 32 then Inr (aes_Encrypt env k)
      else Inl (''crypto/aes: invalid key size '' @ Itoa (int (length k))))"

definition block_bytes :: "128 word \<Rightarrow> byte list" where
  "block_bytes w = map (\<lambda>i. ucast (drop_bit (8 * (15 - i)) w)) [0..<16]"

primrec OFB_blocks :: "(128 word \<Rightarrow> 128 word) \<Rightarrow> 128 word \<Rightarrow> nat \<Rightarrow> byte list" where
  "OFB_blocks E x 0 = []"
| "OFB_blocks E x (Suc k) = block_bytes (E x) @ OFB_blocks E (E x) k"

definition OFB_keystream :: "(128 word \<Rightarrow> 128 word) \<Rightarrow> 128 word \<Rightarrow> nat \<Rightarrow> byte list" where
  "OFB_keystream E iv n = take n (OFB_blocks E iv ((n + 15) div 16))"

definition XORKeyStream :: "(128 word \<Rightarrow> 128 word) \<Rightarrow> 128 word \<Rightarrow> byte list \<Rightarrow> byte list" where
  "XORKeyStream E iv src = map2 (XOR) src (OFB_keystream E iv (length src))"

text \<open>
  Modelled from the spec: the waits of \<^verbatim>\<open>Trade\<close> (\<^verbatim>\<open>waitWhile\<close>,
  \<^verbatim>\<open>interruptibleWaitWhile\<close>) are not in \<^verbatim>\<open>buy.go\<close>. \<^verbatim>\<open>waitWhile(pred)\<close> blocks until
  \<^verbatim>\<open>pred()\<close> returns false and evaluates it again after every mutation;
  \<^verbatim>\<open>interruptibleWaitWhile\<close> additionally returns early, with an error, when a value is
  read from the interrupt channel. The predicate may write to a variable \<open>v\<close> that its
  closure captures. When the wake-ups run out while the predicate holds, the wait never
  returns.
\<close>

fun waitWhile :: "('s \<Rightarrow> 's) list \<Rightarrow> ('s \<Rightarrow> bool) \<Rightarrow> 's \<Rightarrow> 's outcome" where
  "waitWhile [] f s = (if f s then Blocks else Returns s)"
| "waitWhile (m # ms) f s = (if f s then waitWhile ms f (m s) else Returns s)"

fun interruptibleWaitWhile ::
  "'s wake list \<Rightarrow> ('s \<Rightarrow> 'v \<Rightarrow> bool \<times> 'v) \<Rightarrow> 's \<Rightarrow> 'v \<Rightarrow> (error option \<times> 's \<times> 'v) outcome" where
  "interruptibleWaitWhile [] f s v =
     (case f s v of (True, v') \<Rightarrow> Blocks | (False, v') \<Rightarrow> Returns (None, s, v'))"
| "interruptibleWaitWhile (w # ws) f s v =
     (case f s v of
        (False, v') \<Rightarrow> Returns (None, s, v')
      | (True, v') \<Rightarrow>
          (case w of
             Interrupt e \<Rightarrow> Returns (Some e, s, v')
           | Mutation m \<Rightarrow> interruptibleWaitWhile ws f (m s) v'))"

subsection \<open>Decrypting the result (lines 608-639)\<close>

definition decryptResult :: "env \<Rightarrow> state \<Rightarrow> error option outcome \<times> state" where
  "decryptResult env s =
     (case aes_NewCipher env (encResultKey (act s)) of
        Inl err \<Rightarrow> (Returns (Some err), s)
      | Inr block \<Rightarrow>
          (let temp = ''Buy #'' @ key (act s) @ '': result'';
               s1 = emit (EvCreate temp) s
           in deferring (emit (EvDispose temp))
             (deferring (emit (EvClose ''encrypted''))
               (let iv = 0;
                    decrypted = XORKeyStream block iv (content (encResultFile (act s1)))
                in case io_err env ''decryptResult: io.Copy'' of
                     Some err \<Rightarrow> (Returns (Some err), s1)
                   | None \<Rightarrow>
                       (case io_err env ''decryptResult: temp.Close'' of
                          Some err \<Rightarrow> (Returns (Some err), s1)
                        | None \<Rightarrow>
                            (Returns None,
                             execSync (\<lambda>a. a\<lparr>resultFile := Some (Stored decrypted)\<rparr>) s1))))))"


subsection \<open>Talking to the seller\<close>

text \<open>\<^verbatim>\<open>mustGetSellerId\<close> (lines 642-652) panics without a worker URL that parses.\<close>

definition mustGetSellerId :: "env \<Rightarrow> BuyActivity \<Rightarrow> string outcome" where
  "mustGetSellerId env a =
     (case WorkerURL (tx a) of
        None \<Rightarrow> Panics ''no WorkerURL''
      | Some ru \<Rightarrow>
          (case url_Parse env ru of
             Inl err \<Rightarrow> Panics err
           | Inr host \<Rightarrow> Returns (Seller (tx a) @ ''_'' @ host)))"

definition nil_dereference :: string where
  "nil_dereference = ''runtime error: invalid memory address or nil pointer dereference''"

text \<open>\<^verbatim>\<open>postToSeller\<close> (lines 558-580).\<close>

definition postToSeller ::
  "env \<Rightarrow> body \<Rightarrow> string \<Rightarrow> bool \<Rightarrow> state \<Rightarrow> (error + response) outcome \<times> state" where
  "postToSeller env postData contentType compressed s =
     (case WorkerURL (tx (act s)) of
        None \<Rightarrow> (Panics nil_dereference, s)
      | Some u \<Rightarrow>
          (case NewRequest env ''POST'' u of
             Some err \<Rightarrow> (Returns (Inl (''Error creating transmit request: '' @ err)), s)
           | None \<Rightarrow>
               (let req = \<lparr>Method = ''POST'', URL = u,
                           Header = (''Content-Type'', contentType) #
                             (if compressed then [(''Content-Encoding'', ''gzip'')] else []),
                           reqBody = postData\<rparr>;
                    s1 = emit (EvHttp req) s
                in case client_Do env req of
                     Inl err \<Rightarrow> (Returns (Inl err), s1)
                   | Inr resp \<Rightarrow>
                       if StatusCode resp \<noteq> 200 then
                         (Returns (Inl (''Seller returned bad status '' @ [CHR 0x27] @ Status resp
                             @ [CHR 0x27] @ '' [response: '' @ fmt_q env (take 1024 (respBody resp))
                             @ '']'')),
                          emit (EvClose ''resp.Body'') s1)
                       else (Returns (Inr resp), s1))))"

text \<open>\<^verbatim>\<open>signReceipt\<close> (lines 585-606).\<close>

definition signReceipt :: "env \<Rightarrow> state \<Rightarrow> error option outcome \<times> state" where
  "signReceipt env s =
     (let encresulthash = String env (Key env (encResultFile (act s)))
      in case SignMessage env (identity (act s)) encresulthash of
           Inl err \<Rightarrow> (Returns (Some err), s)
         | Inr sig \<Rightarrow>
             (let s1 = execSync (\<lambda>a. a\<lparr>encResultHashSig := sig\<rparr>) s;
                  formValues = [(''encresulthash'', encresulthash),
                                (''encresulthashsig'', encResultHashSig (act s1))]
              in case WorkerURL (tx (act s1)) of
                   None \<Rightarrow> (Panics nil_dereference, s1)
                 | Some u \<Rightarrow>
                     (let req = \<lparr>Method = ''POST'', URL = u,
                                 Header = [(''Content-Type'', ''application/x-www-form-urlencoded'')],
                                 reqBody = Values formValues\<rparr>;
                          s2 = emit (EvHttp req) s1
                      in case client_Do env req of
                           Inl err \<Rightarrow> (Returns (Some err), s2)
                         | Inr resp \<Rightarrow>
                             if StatusCode resp \<noteq> 200 then
                               (Returns (Some (''Error sending receipt for encrypted result: ''
                                   @ Status resp)), s2)
                             else (Returns None, s2))))"

text \<open>
  \<^verbatim>\<open>testSellerForCapabilities\<close> (lines 205-235). The named results start as
  \<open>false, false, false, nil\<close> and every early \<^verbatim>\<open>return\<close> returns them as they are.
\<close>

definition testSellerForCapabilities ::
  "env \<Rightarrow> state \<Rightarrow> (bool \<times> bool \<times> bool \<times> error option) outcome \<times> state" where
  "testSellerForCapabilities env s =
     (case WorkerURL (tx (act s)) of
        None \<Rightarrow> (Panics nil_dereference, s)
      | Some u \<Rightarrow>
          (case NewRequest env ''OPTIONS'' u of
             Some err \<Rightarrow> (Returns (False, False, False, Some err), s)
           | None \<Rightarrow>
               (let req = \<lparr>Method = ''OPTIONS'', URL = u, Header = [], reqBody = NoBody\<rparr>;
                    s1 = emit (EvHttp req) s
                in case client_Do env req of
                     Inl err \<Rightarrow> (Returns (False, False, False, Some err), s1)
                   | Inr resp \<Rightarrow>
                       deferring (emit (EvClose ''resp.Body''))
                         (if StatusCode resp \<noteq> 200 then
                            (Returns (False, False, False, None), s1)
                          else
                            (case json_Decode env (respBody resp) of
                               Inl err \<Rightarrow> (Returns (False, False, False, Some err), s1)
                             | Inr caps \<Rightarrow>
                                 (Returns (Adler32Chunking caps, GZIPCompression caps,
                                           SyncInfo caps, None), s1))))))"

text \<open>
  The producer of \<^verbatim>\<open>transmitWorkLinear\<close> (lines 325-357): its own trace, on the activity
  as the goroutine sees it.
\<close>

definition transmitWorkLinear_go :: "env \<Rightarrow> BuyActivity \<Rightarrow> event list" where
  "transmitWorkLinear_go env a =
     EvCreateFormFile ''work'' ''workfile.bin'' #
     (case io_err env ''work: CreateFormFile'' of
        Some err \<Rightarrow> [EvClosePipe (Some err)]
      | None \<Rightarrow>
          (case WorkerURL (tx a) of
             None \<Rightarrow> [EvPanic nil_dereference]
           | Some u \<Rightarrow>
               [EvCopyWork (workFile a), EvClose ''work''] @
               (case io_err env ''work: io.Copy'' of
                  Some err \<Rightarrow> [EvClosePipe (Some err)]
                | None \<Rightarrow>
                    [EvReturnTransmissionToken,
                     EvWriteField ''buyersecret'' (String env (buyerSecret a))] @
                    (case io_err env ''work: WriteField'' of
                       Some err \<Rightarrow> [EvClosePipe (Some err)]
                     | None \<Rightarrow>
                         EvCloseMultipart #
                         (case io_err env ''work: mwriter.Close'' of
                            Some err \<Rightarrow> [EvClosePipe (Some err)]
                          | None \<Rightarrow> [EvClosePipe None])))))"

text \<open>\<^verbatim>\<open>transmitWorkLinear\<close> (lines 319-364).\<close>

definition transmitWorkLinear :: "env \<Rightarrow> state \<Rightarrow> (error + byte list) outcome \<times> state" where
  "transmitWorkLinear env s =
     (let s1 = emit (EvGo GoSendWork) s
      in andThen (postToSeller env (Pipe GoSendWork) (FormDataContentType env) False s1)
           (\<lambda>r s2. case r of
              Inl err \<Rightarrow> (Returns (Inl err), s2)
            | Inr resp \<Rightarrow> (Returns (Inr (respBody resp)), s2)))"

text \<open>\<^verbatim>\<open>encodeSyncInfoAndInitiateWishlistTransmission\<close> (lines 526-552), in the producer.\<close>

definition encodeSyncInfoAndInitiateWishlistTransmission ::
  "env \<Rightarrow> BuyActivity \<Rightarrow> SyncInfo \<Rightarrow> bool \<Rightarrow> event list \<times> error option outcome" where
  "encodeSyncInfoAndInitiateWishlistTransmission env a syncinfo legacy =
     (let name = (if legacy then ''a32chunks'' else ''syncinfojson'');
          filename = (if legacy then ''a32chunks.bin'' else ''syncinfo.json'');
          create = [EvCreateFormFile name filename]
      in case io_err env ''syncinfo: CreateFormFile'' of
           Some err \<Rightarrow> (create, Returns (Some err))
         | None \<Rightarrow>
             (case WorkerURL (tx a) of
                None \<Rightarrow> (create, Panics nil_dereference)
              | Some u \<Rightarrow>
                  (let written = create @ [EvWriteSyncInfo legacy syncinfo]
                   in case io_err env
                          (if legacy then ''syncinfo: WriteToLegacyStream'' else ''syncinfo: Encode'') of
                        Some err \<Rightarrow> (written, Returns (Some err))
                      | None \<Rightarrow>
                          (written @ [EvWriteField ''buyersecret'' (String env (buyerSecret a))],
                           Returns (io_err env ''syncinfo: WriteField'')))))"

text \<open>The producer of \<^verbatim>\<open>requestMissingChunks\<close> (lines 413-428).\<close>

definition requestMissingChunks_go :: "env \<Rightarrow> BuyActivity \<Rightarrow> SyncInfo \<Rightarrow> bool \<Rightarrow> event list" where
  "requestMissingChunks_go env a syncinfo legacy =
     (case encodeSyncInfoAndInitiateWishlistTransmission env a syncinfo legacy of
        (evs, Panics p) \<Rightarrow> evs @ [EvPanic p]
      | (evs, Blocks) \<Rightarrow> evs
      | (evs, Returns (Some err)) \<Rightarrow> evs @ [EvClosePipe (Some err)]
      | (evs, Returns None) \<Rightarrow>
          evs @ EvCloseMultipart #
          (case io_err env ''syncinfo: mwriter.Close'' of
             Some err \<Rightarrow> [EvClosePipe (Some err)]
           | None \<Rightarrow>
               EvCloseCompressor #
               (case io_err env ''syncinfo: compressor.Close'' of
                  Some err \<Rightarrow> [EvClosePipe (Some err)]
                | None \<Rightarrow> [EvClosePipe None])))"

text \<open>\<^verbatim>\<open>receiveAssistiveDownloadTickets\<close> (lines 438-455); a decoding error is only logged.\<close>

definition receiveAssistiveDownloadTickets ::
  "env \<Rightarrow> response \<Rightarrow> state \<Rightarrow> unit outcome \<times> state" where
  "receiveAssistiveDownloadTickets env resp s =
     (let js = AssistHeader resp
      in if js = [] then (Returns (), s)
         else
           (let tickets = fst (json_Unmarshal env js)
            in case mustGetSellerId env (act s) of
                 Panics p \<Rightarrow> (Panics p, s)
               | Blocks \<Rightarrow> (Blocks, s)
               | Returns sellerId \<Rightarrow>
                   (Returns (),
                    s\<lparr>events := events s @ map (\<lambda>ticket. EvNewTicket ticket sellerId) tickets\<rparr>)))"

text \<open>\<^verbatim>\<open>requestMissingChunks\<close> (lines 399-436).\<close>

definition requestMissingChunks ::
  "env \<Rightarrow> SyncInfo \<Rightarrow> bool \<Rightarrow> bool \<Rightarrow> state \<Rightarrow> (error + byte list) outcome \<times> state" where
  "requestMissingChunks env syncinfo legacy compressed s =
     deferring (emit (EvClose ''pipeIn''))
       (let producer = GoSendSyncInfo syncinfo legacy compressed;
            s1 = emit (EvGo producer) s
        in andThen (postToSeller env (Pipe producer) (FormDataContentType env) compressed s1)
             (\<lambda>r s2. case r of
                Inl err \<Rightarrow> (Returns (Inl (''Error sending work sync data to seller: '' @ err)), s2)
              | Inr resp \<Rightarrow>
                  andThen (receiveAssistiveDownloadTickets env resp s2)
                    (\<lambda>_ s3. (Returns (Inr (respBody resp)), s3))))"

text \<open>
  The producer of \<^verbatim>\<open>sendMissingChunksAndReturnResult\<close> (lines 480-517). The inner function
  \<open>f\<close> writes the chunk data and closes the multipart writer and the compressor; the
  progress callback of \<^verbatim>\<open>WriteChunkData\<close> shows as \<open>EvProgress\<close>.
\<close>

definition sendMissingChunksAndReturnResult_go ::
  "env \<Rightarrow> BuyActivity \<Rightarrow> byte list \<Rightarrow> bool \<Rightarrow> SyncInfo \<Rightarrow> event list" where
  "sendMissingChunksAndReturnResult_go env a wishList compressed syncinfo =
     (let f =
        (case io_err env ''chunkdata: CreateFormFile'' of
           Some err \<Rightarrow> ([EvCreateFormFile ''chunkdata'' ''chunkdata.bin''], Some err)
         | None \<Rightarrow>
             (let written =
                    [EvCreateFormFile ''chunkdata'' ''chunkdata.bin'',
                     EvWriteChunkData (workFile a) wishList (Perm syncinfo)] @
                    map (\<lambda>(bytesToTransfer, bytesTransferred).
                           EvProgress bytesToTransfer bytesTransferred)
                      (WriteChunkData env (workFile a) wishList (Perm syncinfo)) @
                    [EvDispose ''chunks'']
              in case io_err env ''chunkdata: WriteChunkData'' of
                   Some err \<Rightarrow> (written, Some err)
                 | None \<Rightarrow>
                     (case io_err env ''chunkdata: mwriter.Close'' of
                        Some err \<Rightarrow> (written @ [EvCloseMultipart], Some err)
                      | None \<Rightarrow>
                          (written @ [EvCloseMultipart, EvCloseCompressor],
                           io_err env ''chunkdata: compressor.Close''))))
      in case f of
           (evs, Some err) \<Rightarrow> evs @ [EvClosePipe (Some err)]
         | (evs, None) \<Rightarrow>
             evs @ [EvClosePipe None, EvReturnTransmissionToken] @
             (case mustGetSellerId env a of
                Returns sellerId \<Rightarrow> [EvSetNodeInterested sellerId False]
              | Panics p \<Rightarrow> [EvPanic p]
              | Blocks \<Rightarrow> []))"

text \<open>\<^verbatim>\<open>sendMissingChunksAndReturnResult\<close> (lines 457-524).\<close>

definition sendMissingChunksAndReturnResult ::
  "env \<Rightarrow> byte list \<Rightarrow> bool \<Rightarrow> SyncInfo \<Rightarrow> state \<Rightarrow> (error + byte list) outcome \<times> state" where
  "sendMissingChunksAndReturnResult env wishList compressed syncinfo s =
     deferring (emit (EvClose ''pipeIn''))
       (let producer = GoSendChunkData wishList compressed syncinfo;
            s1 = emit (EvGo producer) s
        in andThen (postToSeller env (Pipe producer) (FormDataContentType env) compressed s1)
             (\<lambda>r s2. case r of
                Inl err \<Rightarrow> (Returns (Inl (''Error sending work chunk data to seller: '' @ err)), s2)
              | Inr resp \<Rightarrow> (Returns (Inr (respBody resp)), s2)))"


text \<open>
  \<^verbatim>\<open>postAssistiveDownloadTicketToSeller\<close> (lines 654-666), which the ticket registry calls
  back in a goroutine of its own; every failure is only logged.
\<close>

definition postAssistiveDownloadTicketToSeller :: "env \<Rightarrow> string \<Rightarrow> state \<Rightarrow> unit outcome \<times> state" where
  "postAssistiveDownloadTicketToSeller env ticket s =
     (case io_err env ''assisturl: WriteField'' of
        Some err \<Rightarrow> (Returns (), s)
      | None \<Rightarrow>
          (case io_err env ''assisturl: mwriter.Close'' of
             Some err \<Rightarrow> (Returns (), s)
           | None \<Rightarrow>
               andThen (postToSeller env (Buffer [(''assisturl'', ticket)])
                          (FormDataContentType env) False s)
                 (\<lambda>_ s1. (Returns (), s1))))"

text \<open>\<^verbatim>\<open>transmitWorkChunked\<close> (lines 366-397); \<open>rest\<close> is lines 391-396.\<close>

definition transmitWorkChunked ::
  "env \<Rightarrow> bool \<Rightarrow> bool \<Rightarrow> state \<Rightarrow> (error + byte list) outcome \<times> state" where
  "transmitWorkChunked env compressed legacy s =
     (let numChunks = NumChunks env (workFile (act s))
      in if numChunks > MaxNumberOfChunksInWorkFile env then
           (Returns (Inl (''Work file too big: '' @ Itoa numChunks @ '' chunks (only ''
               @ Itoa (MaxNumberOfChunksInWorkFile env) @ '' allowed).'')), s)
         else
           (let rest = (\<lambda>syncinfo s1.
                  andThen (requestMissingChunks env syncinfo legacy compressed s1)
                    (\<lambda>r s2. case r of
                       Inl err \<Rightarrow>
                         (Returns (Inl (''Transmitting work (chunked) failed: '' @ err)), s2)
                     | Inr wishList \<Rightarrow>
                         deferring (emit (EvClose ''r''))
                           (sendMissingChunksAndReturnResult env wishList compressed syncinfo s2)));
                syncinfo0 = SetChunksFromFile env (workFile (act s))
                              \<lparr>Chunks = [], Perm = NoPermutation\<rparr>
            in if legacy then rest (SetTrivialPermutation syncinfo0) s
               else
                 (let syncinfo1 = SetPermutation (pseudorand_Perm env 256) syncinfo0
                  in case mustGetSellerId env (act s) of
                       Panics p \<Rightarrow> (Panics p, s)
                     | Blocks \<Rightarrow> (Blocks, s)
                     | Returns sellerId \<Rightarrow>
                         (let s1 = emit (EvInitNode sellerId
                                           (HandprintFromSyncInfo env syncinfo1)) s
                          in deferring (emit (EvExitNode sellerId)) (rest syncinfo1 s1)))))"

text \<open>
  \<^verbatim>\<open>interactWithSeller\<close> (lines 246-317), in three parts: the capability probe (lines
  268-280), which yields \<open>(chunked, compressed, legacy)\<close>; the transmission and the
  capture of the encrypted result (lines 282-316); the watchdog and the scoped transport
  around both.
\<close>

definition interactWithSeller_capabilities ::
  "env \<Rightarrow> state \<Rightarrow> (bool \<times> bool \<times> bool) outcome \<times> state" where
  "interactWithSeller_capabilities env s =
     (if IsChunked env (workFile (act s)) then
        andThen (testSellerForCapabilities env s)
          (\<lambda>(chunkedSupported, compressedSupported, syncInfoSupported, err) s1.
             case err of
               Some e \<Rightarrow> (Returns (False, False, True), s1)
             | None \<Rightarrow>
                 (Returns (chunkedSupported, compressedSupported, \<not> syncInfoSupported), s1))
      else (Returns (False, False, True), s))"

definition interactWithSeller_transmit ::
  "env \<Rightarrow> bool \<Rightarrow> bool \<Rightarrow> bool \<Rightarrow> state \<Rightarrow> error option outcome \<times> state" where
  "interactWithSeller_transmit env chunked compressed legacy s =
     andThen (if chunked then transmitWorkChunked env compressed legacy s
              else transmitWorkLinear env s)
       (\<lambda>r s1. case r of
          Inl transmissionError \<Rightarrow> (Returns (Some transmissionError), s1)
        | Inr response \<Rightarrow>
            deferring (emit (EvClose ''response''))
              (let temp = ''Buy #'' @ key (act s1) @ '': encrypted result'';
                   s2 = emit (EvCreate temp) s1
               in deferring (emit (EvDispose temp))
                    (case io_err env ''interactWithSeller: io.Copy'' of
                       Some err \<Rightarrow> (Returns (Some err), s2)
                     | None \<Rightarrow>
                         (let s3 = emit (EvClose ''response'') s2
                          in case io_err env ''interactWithSeller: response.Close'' of
                               Some err \<Rightarrow> (Returns (Some err), s3)
                             | None \<Rightarrow>
                                 (case io_err env ''interactWithSeller: temp.Close'' of
                                    Some err \<Rightarrow> (Returns (Some err), s3)
                                  | None \<Rightarrow>
                                      (let s4 = execSync
                                             (\<lambda>a. a\<lparr>encResultFile := Stored response\<rparr>) s3
                                       in andThen (signReceipt env s4)
                                            (\<lambda>r s5. case r of
                                               Some err \<Rightarrow>
                                                 (Returns (Some
                                                    (''Error signing receipt for encrypted result: ''
                                                      @ err)), s5)
                                             | None \<Rightarrow> (Returns None, s5))))))))"

definition interactWithSeller :: "env \<Rightarrow> state \<Rightarrow> error option outcome \<times> state" where
  "interactWithSeller env s =
     (let s1 = emit (EvGo GoWatchdog) s
      in deferring (emit EvExitWatchdog)
           (let s2 = emit EvScopedTransport s1
            in deferring (emit EvCloseTransport)
                 (andThen (interactWithSeller_capabilities env s2)
                    (\<lambda>(chunked, compressed, legacy) s3.
                       interactWithSeller_transmit env chunked compressed legacy s3))))"

subsection \<open>The life cycle of a buy\<close>

text \<open>
  \<^verbatim>\<open>doLocalBuy\<close> (lines 79-104). \<open>doLocalBuy_wait\<close> is the closure handed to
  \<^verbatim>\<open>interruptibleWaitWhile\<close>, with the captured variable \<open>resultFile\<close> as its second
  argument \<open>resultFile'\<close>.
\<close>

definition doLocalBuy_wait :: "SellActivity \<Rightarrow> File option \<Rightarrow> bool \<times> File option" where
  "doLocalBuy_wait sell resultFile' =
     (if sellAlive sell \<and> sellResultFile sell = None then (True, resultFile')
      else
        (case sellResultFile sell of
           Some f \<Rightarrow> (False, Some (Duplicate f))
         | None \<Rightarrow> (False, resultFile')))"

definition doLocalBuy :: "env \<Rightarrow> state \<Rightarrow> (error + File option) outcome \<times> state" where
  "doLocalBuy env s =
     (case localMatch (act s) of
        None \<Rightarrow> (Panics nil_dereference, s)
      | Some sell0 \<Rightarrow>
          (case interruptibleWaitWhile (sell_wakes env) doLocalBuy_wait sell0 None of
             Blocks \<Rightarrow> (Blocks, s)
           | Panics p \<Rightarrow> (Panics p, s)
           | Returns (err, sell, resultFile') \<Rightarrow>
               (let s1 = execSync (\<lambda>a. a\<lparr>localMatch := Some sell\<rparr>) s
                in case err of
                     Some e \<Rightarrow>
                       (Returns (Inl (''Error waiting for local sell to complete: '' @ e)), s1)
                   | None \<Rightarrow>
                       (case resultFile' of
                          None \<Rightarrow>
                            (Returns (Inl (''Sell didn't produce a result: #'' @ sellKey sell)), s1)
                        | Some f \<Rightarrow>
                            (Returns (Inr (Some f)),
                             execSync (\<lambda>a. a\<lparr>resultFile := Some f\<rparr>) s1)))))"

text \<open>\<^verbatim>\<open>finishBuy\<close> (lines 185-202), the body of the goroutine \<open>GoFinishBuy\<close>.\<close>

definition finishBuy :: "env \<Rightarrow> state \<Rightarrow> error option outcome \<times> state" where
  "finishBuy env s =
     deferring (emit EvAbortPolling)
       (let s1 = emit (EvGo GoPollTransaction) s;
            s2 = emit (EvAcceptResult (txId (act s1)) (identity (act s1))) s1
        in case SendTxMessageAcceptResult env (txId (act s1)) (identity (act s1)) of
             Some err \<Rightarrow>
               (Returns (Some (''Failed to send 'accept result' message: '' @ err)), s2)
           | None \<Rightarrow>
               (case waitWhile (tx_wakes env) (\<lambda>t. State t = StateActive) (tx (act s2)) of
                  Blocks \<Rightarrow> (Blocks, s2)
                | Panics p \<Rightarrow> (Panics p, s2)
                | Returns t \<Rightarrow>
                    (Returns None,
                     execSync (\<lambda>a. a\<lparr>alive := False\<rparr>) (execSync (\<lambda>a. a\<lparr>tx := t\<rparr>) s2))))"

text \<open>
  \<^verbatim>\<open>doRemoteBuy\<close> (lines 107-183): up to the Transmitting phase here, lines 148-183 in
  \<open>doRemoteBuy_transmitting\<close>.
\<close>

definition doRemoteBuy_transmitting :: "env \<Rightarrow> state \<Rightarrow> (error + File option) outcome \<times> state" where
  "doRemoteBuy_transmitting env s =
     andThen (interactWithSeller env s)
       (\<lambda>r s1.
          let sellerErr = map_option
                (\<lambda>err. ''Error transmitting work and receiving encrypted result: '' @ err) r;
              (w, a2) = waitForTransactionPhase env PhaseUnverified
                          [PhaseTransmitting, PhaseWorking] (act s1);
              s2 = s1\<lparr>act := a2\<rparr>;
              phaseErr = map_option (\<lambda>err. ''Error awaiting UNVERIFIED phase: '' @ err) w
          in case sellerErr of
               None \<Rightarrow>
                 (case phaseErr of
                    None \<Rightarrow>
                      (let s3 = execSync (\<lambda>a. a\<lparr>encResultKey := ResultDecryptionKey (tx a)\<rparr>) s2
                       in andThen (decryptResult env s3)
                            (\<lambda>r s4. case r of
                               Some err \<Rightarrow>
                                 (Returns (Inl (''Error decrypting result: '' @ err)), s4)
                             | None \<Rightarrow>
                                 (let s5 = emit (EvGo GoFinishBuy) s4
                                  in (Returns (Inr (resultFile (act s5))), s5))))
                  | Some pe \<Rightarrow> (Returns (Inl pe), s2))
             | Some se \<Rightarrow>
                 (case phaseErr of
                    None \<Rightarrow> (Returns (Inl se), s2)
                  | Some pe \<Rightarrow> (Returns (Inl (pe @ ''. Additionally: '' @ se)), s2)))"

definition doRemoteBuy :: "env \<Rightarrow> state \<Rightarrow> (error + File option) outcome \<times> state" where
  "doRemoteBuy env s =
     deferring (emit EvReturnTransmissionToken)
       (let (b, a1) = beginRemoteTrade env (act s);
            s1 = s\<lparr>act := a1\<rparr>
        in case b of
             Some err \<Rightarrow> (Returns (Inl err), s1)
           | None \<Rightarrow>
               (case ReadFull (rand_Reader env) 32 of
                  Inl err \<Rightarrow> (Returns (Inl err), s1)
                | Inr secret \<Rightarrow>
                    (let s2 = execSync (\<lambda>a. a\<lparr>buyerSecret := secret\<rparr>) s1;
                         workHash = Key env (workFile (act s2));
                         hash = hash_Write (hash_Write [] workHash) secret;
                         workSecretHash = Sum_into env hash (replicate 32 0)
                     in deferring (emit EvAbortPolling)
                          (let s3 = emit (EvGo GoPollTransaction) s2;
                               s4 = emit (EvEstablishBuyer (txId (act s3)) (identity (act s3))
                                            workHash workSecretHash) s3
                           in case SendTxMessageEstablishBuyer env (txId (act s3))
                                     (identity (act s3)) workHash workSecretHash of
                                Some err \<Rightarrow>
                                  (Returns (Inl (''Error establishing buyer: '' @ err)), s4)
                              | None \<Rightarrow>
                                  (let (w, a5) = waitForTransactionPhase env PhaseTransmitting
                                         [PhaseEstablishing, PhaseSellerEstablished,
                                          PhaseBuyerEstablished] (act s4);
                                       s5 = s4\<lparr>act := a5\<rparr>
                                   in case w of
                                        Some err \<Rightarrow>
                                          (Returns (Inl (''Error awaiting TRANSMITTING phase: ''
                                             @ err)), s5)
                                      | None \<Rightarrow> doRemoteBuy_transmitting env s5)))))"

text \<open>\<^verbatim>\<open>doPerformBuy\<close> (lines 66-76) and \<^verbatim>\<open>PerformBuy\<close> (lines 49-63).\<close>

definition doPerformBuy :: "env \<Rightarrow> state \<Rightarrow> (error + File option) outcome \<times> state" where
  "doPerformBuy env s =
     (let (c, a1) = awaitClearance env (act s);
          s1 = s\<lparr>act := a1\<rparr>
      in case c of
           Some err \<Rightarrow> (Returns (Inl err), s1)
         | None \<Rightarrow>
             if localMatch (act s1) \<noteq> None then doLocalBuy env s1 else doRemoteBuy env s1)"

definition PerformBuy :: "env \<Rightarrow> File \<Rightarrow> state \<Rightarrow> (error + File option) outcome \<times> state" where
  "PerformBuy env file s =
     (let s1 = execSync (\<lambda>a. a\<lparr>workFile := Duplicate file\<rparr>) s
      in deferring (execSync (\<lambda>a. a\<lparr>alive := False\<rparr>))
           (andThen (doPerformBuy env s1)
              (\<lambda>r s2. case r of
                 Inl err \<Rightarrow> (Returns r, execSync (\<lambda>a. a\<lparr>lastError := Some err\<rparr>) s2)
               | Inr f \<Rightarrow> (Returns r, s2))))"

subsection \<open>Notions used in the properties\<close>

text \<open>
  AES-256 in output feedback mode with a zero initialization vector, as the seller
  encrypts the result, stated on its own and not through the stream cipher of the
  decryption. The output blocks are \<open>O 0 = IV\<close> and \<open>O (i + 1) = E (O i)\<close>, with \<open>E\<close> the
  block encryption under the key; byte \<open>j\<close> of the ciphertext is byte \<open>j\<close> of the plaintext
  XORed with byte \<open>j mod 16\<close> of the output block \<open>O (j div 16 + 1)\<close>. \<open>octet w i\<close> is byte
  \<open>i\<close> of the block \<open>w\<close>, the most significant first.
\<close>

definition octet :: "128 word \<Rightarrow> nat \<Rightarrow> byte" where
  "octet w i = word_of_int (uint w div 2 ^ (8 * (15 - i)) mod 256)"

definition OFB_output :: "(128 word \<Rightarrow> 128 word) \<Rightarrow> 128 word \<Rightarrow> nat \<Rightarrow> 128 word" where
  "OFB_output E iv i = (E ^^ i) iv"

definition AES256_OFB_encrypt :: "env \<Rightarrow> byte list \<Rightarrow> byte list \<Rightarrow> byte list" where
  "AES256_OFB_encrypt env K P =
     map (\<lambda>j. (P ! j) XOR octet (OFB_output (aes_Encrypt env K) 0 (Suc (j div 16))) (j mod 16))
       [0..<length P]"

text \<open>The name of the temporary file of \<^verbatim>\<open>decryptResult\<close>.\<close>

definition temp_result :: "state \<Rightarrow> string" where
  "temp_result s = ''Buy #'' @ key (act s) @ '': result''"

text \<open>Go's \<^verbatim>\<open>strings.HasPrefix\<close>, and the error of a work file with too many chunks.\<close>

fun HasPrefix :: "string \<Rightarrow> string \<Rightarrow> bool" where
  "HasPrefix s [] = True"
| "HasPrefix [] (p # ps) = False"
| "HasPrefix (c # cs) (p # ps) = (c = p \<and> HasPrefix cs ps)"

definition isWorkTooLarge :: "error \<Rightarrow> bool" where
  "isWorkTooLarge e = HasPrefix e ''Work file too big: ''"

text \<open>The \<^verbatim>\<open>SyncInfo\<close> that \<^verbatim>\<open>transmitWorkChunked\<close> builds for a work file.\<close>

definition SyncInfo_built :: "env \<Rightarrow> File \<Rightarrow> bool \<Rightarrow> SyncInfo" where
  "SyncInfo_built env f legacy =
     \<lparr>Chunks = cafs_Chunks env (content f),
      Perm = (if legacy then TrivialPermutation else Permutation (pseudorand_Perm env 256))\<rparr>"

text \<open>
  \<open>emits P s s'\<close>: the trace of \<open>s'\<close> is the trace of \<open>s\<close> followed by events that all
  satisfy \<open>P\<close>. The classes \<open>http\<close>, \<open>wire\<close> and \<open>seller\<close> bound what the functions
  below \<^verbatim>\<open>interactWithSeller\<close> emit.
\<close>

definition emits :: "(event \<Rightarrow> bool) \<Rightarrow> state \<Rightarrow> state \<Rightarrow> bool" where
  "emits P s s' \<longleftrightarrow> (\<exists>new. events s' = events s @ new \<and> list_all P new)"

fun http :: "event \<Rightarrow> bool" where
  "http (EvHttp r) = True"
| "http (EvClose n) = True"
| "http e = False"

fun wire :: "event \<Rightarrow> bool" where
  "wire (EvHttp r) = True"
| "wire (EvClose n) = True"
| "wire (EvCreate n) = True"
| "wire (EvDispose n) = True"
| "wire (EvNewTicket t i) = True"
| "wire (EvGo g) = (g \<noteq> GoPollTransaction \<and> g \<noteq> GoFinishBuy)"
| "wire e = False"

fun seller :: "event \<Rightarrow> bool" where
  "seller (EvInitNode i h) = True"
| "seller (EvExitNode i) = True"
| "seller EvExitWatchdog = True"
| "seller EvScopedTransport = True"
| "seller EvCloseTransport = True"
| "seller e = wire e"

subsection \<open>A sample run\<close>

text \<open>
  A seller that answers every request with status 200 and three bytes, a coordinator that
  accepts every message, and stand-ins for the libraries. The theorems hold for every
  environment; this one instantiates them.
\<close>

definition sample_response :: response where
  "sample_response = \<lparr>StatusCode = 200, Status = ''200 OK'', AssistHeader = [], respBody = [1, 2, 3]\<rparr>"

definition sample_cipher :: "byte list \<Rightarrow> 128 word \<Rightarrow> 128 word" where
  "sample_cipher k w = 3 * w + 0x0102030405060708090A0B0C0D0E0F10 + ucast (sum_list k)"

definition sample_env :: env where
  "sample_env =
     \<lparr>sha256_Sum = (\<lambda>bs. replicate 32 (sum_list bs)),
      aes_Encrypt = sample_cipher,
      cafs_Key = (\<lambda>c. replicate 32 (sum_list c + 1)),
      cafs_IsChunked = (\<lambda>c. False),
      cafs_NumChunks = (\<lambda>c. 1),
      cafs_Chunks = (\<lambda>c. [c]),
      String = (\<lambda>bs. replicate (length bs) CHR ''x''),
      HandprintFromSyncInfo = (\<lambda>si. ''handprint''),
      url_Parse = (\<lambda>u. Inr ''seller.example''),
      pseudorand_Perm = (\<lambda>n. rev [0..<n]),
      json_Decode = (\<lambda>bs. Inr \<lparr>Adler32Chunking = True, GZIPCompression = False, SyncInfo = True\<rparr>),
      json_Unmarshal = (\<lambda>js. ([], Some ''invalid'')),
      fmt_q = (\<lambda>bs. ''...''),
      FormDataContentType = ''multipart/form-data'',
      MaxNumberOfChunksInWorkFile = 16384,
      rand_Reader = replicate 32 5,
      NewRequest = (\<lambda>m u. None),
      client_Do = (\<lambda>req. Inr sample_response),
      io_err = (\<lambda>site. None),
      WriteChunkData = (\<lambda>f w p. [(3, 3)]),
      SignMessage = (\<lambda>i m. Inr ''signature''),
      SendTxMessageEstablishBuyer = (\<lambda>t i wh wsh. None),
      SendTxMessageAcceptResult = (\<lambda>t i. None),
      awaitClearance = (\<lambda>a. (None, a)),
      beginRemoteTrade = (\<lambda>a. (None, a)),
      waitForTransactionPhase = (\<lambda>p ps a. (None, a\<lparr>tx := (tx a)\<lparr>Phase := p\<rparr>\<rparr>)),
      sell_wakes = [],
      tx_wakes = [\<lambda>t. t\<lparr>State := StateRetired\<rparr>]\<rparr>"

definition sample_activity :: BuyActivity where
  "sample_activity =
     \<lparr>key = ''42'', workFile = Stored [], buyerSecret = [], encResultFile = Stored [],
      encResultHashSig = [], encResultKey = [], resultFile = None,
      tx = \<lparr>State = StateActive, Phase = PhaseEstablishing,
            WorkerURL = Some ''https://seller.example/'', Seller = ''seller'',
            ResultDecryptionKey = replicate 32 1\<rparr>,
      txId = ''tx1'', identity = ''buyer'', localMatch = None,
      bytesToTransfer = 0, bytesTransferred = 0, alive = True, lastError = None\<rparr>"

definition sample_state :: state where
  "sample_state = \<lparr>act = sample_activity, events = []\<rparr>"

text \<open>
  The sample activity holding a result of eighteen bytes, more than one block, encrypted
  under a key of 32 bytes: the ciphertext is written out.
\<close>

definition sample_plaintext :: "byte list" where
  "sample_plaintext =
     [10, 20, 30, 40, 50, 60, 70, 80, 90, 100, 110, 120, 130, 140, 150, 160, 170, 180]"

definition sample_ciphertext :: "byte list" where
  "sample_ciphertext =
     [11, 22, 29, 44, 55, 58, 65, 88, 83, 110, 101, 116, 143, 130, 153, 144, 174, 188]"

definition sample_encrypted :: state where
  "sample_encrypted =
     sample_state\<lparr>act := sample_activity
       \<lparr>encResultKey := replicate 32 1,
        encResultFile := Stored sample_ciphertext,
        resultFile := Some (Stored [9])\<rparr>\<rparr>"

text \<open>The sample environment with one failing I/O operation.\<close>

definition failing :: "string \<Rightarrow> error \<Rightarrow> env" where
  "failing site err = sample_env\<lparr>io_err := (\<lambda>x. if x = site then Some err else None)\<rparr>"

text \<open>
  The OPTIONS request of the capability probe, and the probe failing: the request cannot
  be made or errors, the status is not 200, or the body does not decode.
\<close>

definition OPTIONS_request :: "string \<Rightarrow> request" where
  "OPTIONS_request u = \<lparr>Method = ''OPTIONS'', URL = u, Header = [], reqBody = NoBody\<rparr>"

definition probe_fails :: "env \<Rightarrow> string \<Rightarrow> bool" where
  "probe_fails env u =
     (NewRequest env ''OPTIONS'' u \<noteq> None
      \<or> (case client_Do env (OPTIONS_request u) of
            Inl err \<Rightarrow> True
          | Inr resp \<Rightarrow> StatusCode resp \<noteq> 200 \<or> isl (json_Decode env (respBody resp))))"

text \<open>What the linear path emits: uncompressed POST requests and the producer of the work.\<close>

fun plain :: "event \<Rightarrow> bool" where
  "plain (EvHttp r) = (Method r = ''POST'' \<and> (''Content-Encoding'', ''gzip'') \<notin> set (Header r))"
| "plain (EvClose n) = True"
| "plain (EvCreate n) = True"
| "plain (EvDispose n) = True"
| "plain (EvGo g) = (g = GoSendWork)"
| "plain e = False"

text \<open>
  The sample environment with a chunked work file and a seller that answers OPTIONS with
  status 404.
\<close>

definition sample_no_options :: env where
  "sample_no_options =
     sample_env\<lparr>cafs_IsChunked := (\<lambda>c. True),
                client_Do := (\<lambda>req. if Method req = ''OPTIONS''
                                then Inr (sample_response\<lparr>StatusCode := 404,
                                                          Status := ''404 Not Found''\<rparr>)
                                else Inr sample_response)\<rparr>"

text \<open>
  The sample environment with a seller that refuses the connection and a transaction that
  is retired before it reaches the Unverified phase.
\<close>

definition sample_both_fail :: env where
  "sample_both_fail =
     sample_env\<lparr>client_Do := (\<lambda>req. Inl ''connection refused''),
                waitForTransactionPhase :=
                  (\<lambda>p ps a. (if p = PhaseUnverified then Some ''transaction retired'' else None, a))\<rparr>"

text \<open>
  The paired sell activity as a waiter sees it: still alive without a result; and after
  a sequence of mutations.
\<close>

definition waiting :: "SellActivity \<Rightarrow> bool" where
  "waiting sell = (sellAlive sell \<and> sellResultFile sell = None)"

definition after :: "SellActivity \<Rightarrow> (SellActivity \<Rightarrow> SellActivity) list \<Rightarrow> SellActivity" where
  "after sell ms = foldl (\<lambda>x m. m x) sell ms"

text \<open>
  A local buy: the sample activity paired with a sell that is woken twice and has a
  result the second time.
\<close>

definition sample_sell :: SellActivity where
  "sample_sell = \<lparr>sellKey = ''7'', sellAlive = True, sellResultFile = None\<rparr>"

definition sample_local :: state where
  "sample_local = sample_state\<lparr>act := sample_activity\<lparr>localMatch := Some sample_sell\<rparr>\<rparr>"

definition sample_local_env :: env where
  "sample_local_env =
     sample_env\<lparr>sell_wakes :=
       [Mutation (\<lambda>x. x), Mutation (\<lambda>x. x\<lparr>sellResultFile := Some (Stored [4, 5])\<rparr>)]\<rparr>"

text \<open>
  The claim that a local buy waits until the paired sell dies or produces a result file:
  when the buy returns, the sell as last seen is no longer alive without a result.
\<close>

definition waited_for_sell :: "env \<Rightarrow> state \<Rightarrow> bool" where
  "waited_for_sell env s =
     (case doLocalBuy env s of
        (Returns r, s') \<Rightarrow>
          (case localMatch (act s') of Some sell \<Rightarrow> \<not> waiting sell | None \<Rightarrow> False)
      | (Panics p, s') \<Rightarrow> True
      | (Blocks, s') \<Rightarrow> True)"

text \<open>The sample environment with a sell that is woken once and an interrupt after that.\<close>

definition sample_interrupt_env :: env where
  "sample_interrupt_env =
     sample_env\<lparr>sell_wakes := [Mutation (\<lambda>x. x), Interrupt ''interrupted'']\<rparr>"

text \<open>
  The claim that the producer of the chunk data returns the transmission token when the
  POST begins sending: the token is returned, and no chunk data has been written to the
  request body before.
\<close>

fun isWriteChunkData :: "event \<Rightarrow> bool" where
  "isWriteChunkData (EvWriteChunkData f w p) = True"
| "isWriteChunkData e = False"

definition token_returned_at_begin :: "event list \<Rightarrow> bool" where
  "token_returned_at_begin tr =
     (EvReturnTransmissionToken \<in> set tr
      \<and> \<not> list_ex isWriteChunkData (takeWhile (\<lambda>e. e \<noteq> EvReturnTransmissionToken) tr))"

text \<open>The four writes of the producer of the chunk data all succeed.\<close>

definition chunkdata_written :: "env \<Rightarrow> bool" where
  "chunkdata_written env =
     (io_err env ''chunkdata: CreateFormFile'' = None
      \<and> io_err env ''chunkdata: WriteChunkData'' = None
      \<and> io_err env ''chunkdata: mwriter.Close'' = None
      \<and> io_err env ''chunkdata: compressor.Close'' = None)"

text \<open>The \<^verbatim>\<open>SyncInfo\<close> of the sample work file in modern mode.\<close>

definition sample_syncinfo :: SyncInfo where
  "sample_syncinfo = SyncInfo_built sample_env (workFile sample_activity) False"


section \<open>Properties\<close>

subsection \<open>Sequencing, deferred calls and the trace\<close>

named_theorems emits_intros

lemma fst_deferring [simp]: "fst (deferring d m) = fst m"
  by (cases m) (auto simp: deferring_def split: outcome.splits)

lemma emits_refl [simp]: "emits P s s"
  by (simp add: emits_def)

lemma emits_subset: "emits P s0 s \<Longrightarrow> set (events s0) \<subseteq> set (events s)"
  by (auto simp: emits_def)

lemma emits_emit [emits_intros]: "P e \<Longrightarrow> emits P s0 s \<Longrightarrow> emits P s0 (emit e s)"
  by (auto simp: emits_def emit_def)

lemma emits_execSync [emits_intros]: "emits P s0 s \<Longrightarrow> emits P s0 (execSync f s)"
  by (simp add: emits_def execSync_def)

lemma emits_act [emits_intros]: "emits P s0 s \<Longrightarrow> emits P s0 (s\<lparr>act := a\<rparr>)"
  by (simp add: emits_def)

lemma emits_andThen [emits_intros]:
  assumes "emits P s0 (snd m)" and "\<And>x s1. emits P s0 s1 \<Longrightarrow> emits P s0 (snd (k x s1))"
  shows "emits P s0 (snd (andThen m k))"
proof (cases m)
  case (Pair r s1)
  with assms show ?thesis
    by (cases r) (auto simp: andThen_def)
qed

lemma emits_andThen_snd:
  "(\<And>x s1. emits P (snd m) s1 \<Longrightarrow> emits P (snd m) (snd (k x s1)))
   \<Longrightarrow> emits P (snd m) (snd (andThen m k))"
  by (rule emits_andThen) simp_all

lemma emits_deferring [emits_intros]:
  assumes "emits P s0 (snd m)" and "\<And>s1. emits P s0 s1 \<Longrightarrow> emits P s0 (d s1)"
  shows "emits P s0 (snd (deferring d m))"
proof (cases m)
  case (Pair r s1)
  with assms show ?thesis
    by (cases r) (auto simp: deferring_def)
qed

lemma mem_deferring_emit:
  "e \<in> set (events (snd m)) \<Longrightarrow> e \<in> set (events (snd (deferring (emit x) m)))"
  by (cases m) (auto simp: deferring_def emit_def split: outcome.splits)

lemma http_wire: "http e \<Longrightarrow> wire e"
  by (cases e) auto

lemma wire_seller: "wire e \<Longrightarrow> seller e"
  by (cases e) auto

lemma http_seller: "http e \<Longrightarrow> seller e"
  by (cases e) auto


lemma wire_not_InitNode: "wire e \<Longrightarrow> e \<noteq> EvInitNode i h"
  by (cases e) auto

subsection \<open>What each function may emit\<close>

lemma emits_postToSeller [emits_intros]:
  "(\<And>e. http e \<Longrightarrow> P e) \<Longrightarrow> emits P s0 s \<Longrightarrow> emits P s0 (snd (postToSeller env b ct c s))"
  by (auto simp: postToSeller_def Let_def split: option.splits sum.splits intro!: emits_intros)

lemma emits_signReceipt [emits_intros]:
  "(\<And>e. http e \<Longrightarrow> P e) \<Longrightarrow> emits P s0 s \<Longrightarrow> emits P s0 (snd (signReceipt env s))"
  by (auto simp: signReceipt_def Let_def split: option.splits sum.splits intro!: emits_intros)

lemma emits_testSellerForCapabilities [emits_intros]:
  "(\<And>e. http e \<Longrightarrow> P e) \<Longrightarrow> emits P s0 s
   \<Longrightarrow> emits P s0 (snd (testSellerForCapabilities env s))"
  by (auto simp: testSellerForCapabilities_def Let_def split: option.splits sum.splits
      intro!: emits_intros)

lemma emits_transmitWorkLinear [emits_intros]:
  "(\<And>e. http e \<Longrightarrow> P e) \<Longrightarrow> P (EvGo GoSendWork) \<Longrightarrow> emits P s0 s
   \<Longrightarrow> emits P s0 (snd (transmitWorkLinear env s))"
  by (auto simp: transmitWorkLinear_def Let_def split: option.splits sum.splits
      intro!: emits_intros)

lemma emits_receiveAssistiveDownloadTickets [emits_intros]:
  "(\<And>t i. P (EvNewTicket t i)) \<Longrightarrow> emits P s0 s
   \<Longrightarrow> emits P s0 (snd (receiveAssistiveDownloadTickets env resp s))"
  by (auto simp: receiveAssistiveDownloadTickets_def Let_def emits_def list_all_iff
      split: outcome.splits)

lemma emits_requestMissingChunks [emits_intros]:
  "(\<And>e. http e \<Longrightarrow> P e) \<Longrightarrow> (\<And>t i. P (EvNewTicket t i))
   \<Longrightarrow> P (EvGo (GoSendSyncInfo si l c)) \<Longrightarrow> emits P s0 s
   \<Longrightarrow> emits P s0 (snd (requestMissingChunks env si l c s))"
  by (auto simp: requestMissingChunks_def Let_def split: option.splits sum.splits
      intro!: emits_intros)

lemma emits_sendMissingChunksAndReturnResult [emits_intros]:
  "(\<And>e. http e \<Longrightarrow> P e) \<Longrightarrow> P (EvGo (GoSendChunkData w c si)) \<Longrightarrow> emits P s0 s
   \<Longrightarrow> emits P s0 (snd (sendMissingChunksAndReturnResult env w c si s))"
  by (auto simp: sendMissingChunksAndReturnResult_def Let_def split: option.splits sum.splits
      intro!: emits_intros)

text \<open>Lines 391-396 of \<^verbatim>\<open>transmitWorkChunked\<close>, as the definition has them.\<close>

lemma emits_transmitWorkChunked_rest:
  assumes "\<And>e. http e \<Longrightarrow> P e" and "\<And>t i. P (EvNewTicket t i)"
    and "P (EvGo (GoSendSyncInfo si l c))" and "\<And>w. P (EvGo (GoSendChunkData w c si))"
    and "emits P s0 s"
  shows "emits P s0 (snd (
     andThen (requestMissingChunks env si l c s)
       (\<lambda>r s2. case r of
          Inl err \<Rightarrow> (Returns (Inl (''Transmitting work (chunked) failed: '' @ err)), s2)
        | Inr wishList \<Rightarrow>
            deferring (emit (EvClose ''r''))
              (sendMissingChunksAndReturnResult env wishList c si s2))))"
  using assms by (auto split: sum.splits intro!: emits_intros)

lemma emits_transmitWorkChunked [emits_intros]:
  "(\<And>e. seller e \<Longrightarrow> P e) \<Longrightarrow> emits P s0 s
   \<Longrightarrow> emits P s0 (snd (transmitWorkChunked env c l s))"
  by (auto simp: transmitWorkChunked_def Let_def wire_seller http_seller
      split: option.splits sum.splits outcome.splits
      intro!: emits_intros emits_transmitWorkChunked_rest)

lemma emits_interactWithSeller_capabilities [emits_intros]:
  "(\<And>e. http e \<Longrightarrow> P e) \<Longrightarrow> emits P s0 s
   \<Longrightarrow> emits P s0 (snd (interactWithSeller_capabilities env s))"
  by (auto simp: interactWithSeller_capabilities_def Let_def split: option.splits sum.splits
      intro!: emits_intros)

lemma emits_interactWithSeller_transmit [emits_intros]:
  "(\<And>e. seller e \<Longrightarrow> P e) \<Longrightarrow> emits P s0 s
   \<Longrightarrow> emits P s0 (snd (interactWithSeller_transmit env ch c l s))"
  by (auto simp: interactWithSeller_transmit_def Let_def wire_seller http_seller
      split: option.splits sum.splits intro!: emits_intros)

lemma emits_interactWithSeller [emits_intros]:
  "(\<And>e. seller e \<Longrightarrow> P e) \<Longrightarrow> emits P s0 s \<Longrightarrow> emits P s0 (snd (interactWithSeller env s))"
  by (auto simp: interactWithSeller_def Let_def wire_seller http_seller
      split: option.splits sum.splits intro!: emits_intros)

lemma emits_decryptResult [emits_intros]:
  "(\<And>e. wire e \<Longrightarrow> P e) \<Longrightarrow> emits P s0 s \<Longrightarrow> emits P s0 (snd (decryptResult env s))"
  by (auto simp: decryptResult_def Let_def split: option.splits sum.splits intro!: emits_intros)


subsection \<open>Output feedback mode\<close>

lemma length_block_bytes: "length (block_bytes w) = 16"
  by (simp add: block_bytes_def)

lemma length_OFB_blocks: "length (OFB_blocks E x k) = 16 * k"
  by (induction k arbitrary: x) (simp_all add: length_block_bytes)

lemma length_OFB_keystream: "length (OFB_keystream E iv n) = n"
  by (simp add: OFB_keystream_def length_OFB_blocks)

lemma map2_xor_twice:
  "length ks = length (xs :: byte list) \<Longrightarrow> map2 (XOR) (map2 (XOR) xs ks) ks = xs"
  by (induction xs ks rule: list_induct2') (simp_all add: xor.assoc)

lemma XORKeyStream_involution: "XORKeyStream E iv (XORKeyStream E iv src) = src"
  unfolding XORKeyStream_def
  by (simp add: length_OFB_keystream map2_xor_twice)

subsection \<open>Decryption\<close>

text \<open>
  The stream cipher of the decryption computes the output feedback mode of the
  reference: the bytes of the block cipher's iterates, in order.
\<close>

lemma octet_eq: "octet w i = ucast (drop_bit (8 * (15 - i)) w)"
proof -
  have t: "take_bit 128 (uint w) = uint w"
    using uint_lt2p [of w] by (intro take_bit_int_eq_self) simp_all
  have "uint (drop_bit (8 * (15 - i)) w) = drop_bit (8 * (15 - i)) (uint w)"
    by (simp add: unsigned_drop_bit_eq t)
  also have "\<dots> = uint w div 2 ^ (8 * (15 - i))"
    by (rule drop_bit_eq_div)
  finally show ?thesis
    by (simp add: octet_def ucast_eq word_of_int_eq_iff take_bit_eq_mod)
qed

lemma block_bytes_nth: "i < 16 \<Longrightarrow> block_bytes w ! i = octet w i"
  by (simp add: block_bytes_def octet_eq del: upt_rec_numeral)

lemma OFB_blocks_nth:
  "j < 16 * k \<Longrightarrow> OFB_blocks E x k ! j = octet ((E ^^ Suc (j div 16)) x) (j mod 16)"
proof (induction k arbitrary: x j)
  case 0
  then show ?case by simp
next
  case (Suc k)
  show ?case
  proof (cases "j < 16")
    case True
    then show ?thesis
      by (simp add: nth_append length_block_bytes block_bytes_nth)
  next
    case False
    then have j: "j - 16 < 16 * k" "Suc ((j - 16) div 16) = j div 16"
      "(j - 16) mod 16 = j mod 16"
      using Suc.prems by (simp_all add: le_div_geq le_mod_geq)
    have "OFB_blocks E x (Suc k) ! j = OFB_blocks E (E x) k ! (j - 16)"
      using False by (simp add: nth_append length_block_bytes)
    also have "\<dots> = octet ((E ^^ Suc ((j - 16) div 16)) (E x)) ((j - 16) mod 16)"
      using j(1) by (rule Suc.IH)
    also have "\<dots> = octet ((E ^^ Suc (j div 16)) x) (j mod 16)"
      unfolding j(2,3) by (simp add: funpow_swap1)
    finally show ?thesis .
  qed
qed

lemma AES256_OFB_encrypt_XORKeyStream:
  "AES256_OFB_encrypt env K P = XORKeyStream (aes_Encrypt env K) 0 P"
proof (rule nth_equalityI)
  show "length (AES256_OFB_encrypt env K P) = length (XORKeyStream (aes_Encrypt env K) 0 P)"
    by (simp add: AES256_OFB_encrypt_def XORKeyStream_def length_OFB_keystream)
next
  fix j assume "j < length (AES256_OFB_encrypt env K P)"
  then have j: "j < length P"
    by (simp add: AES256_OFB_encrypt_def)
  then have "j < 16 * ((length P + 15) div 16)"
    by simp
  then have "OFB_keystream (aes_Encrypt env K) 0 (length P) ! j
               = octet ((aes_Encrypt env K ^^ Suc (j div 16)) 0) (j mod 16)"
    using j by (simp add: OFB_keystream_def OFB_blocks_nth)
  with j show "AES256_OFB_encrypt env K P ! j = XORKeyStream (aes_Encrypt env K) 0 P ! j"
    by (simp add: AES256_OFB_encrypt_def XORKeyStream_def OFB_output_def length_OFB_keystream)
qed

lemma sample_ciphertext_reference:
  "AES256_OFB_encrypt sample_env (replicate 32 1) sample_plaintext = sample_ciphertext"
  by (simp add: AES256_OFB_encrypt_def OFB_output_def octet_def sample_env_def
      sample_cipher_def sample_plaintext_def sample_ciphertext_def sum_list_replicate)

text \<open>
  C7. For every key \<open>K\<close> of 32 bytes and every plaintext \<open>P\<close>: when the encrypted result
  file holds the AES-256-OFB encryption of \<open>P\<close> under \<open>K\<close> with a zero initialization
  vector, and copying and closing the temporary file do not fail, \<^verbatim>\<open>decryptResult\<close>
  under \<open>K\<close> returns no error and leaves a result file whose content is exactly \<open>P\<close>.
\<close>

theorem decryptResult_roundtrip:
  assumes "length K = 32"
    and "encResultKey (act s) = K"
    and "content (encResultFile (act s)) = AES256_OFB_encrypt env K P"
    and "io_err env ''decryptResult: io.Copy'' = None"
    and "io_err env ''decryptResult: temp.Close'' = None"
  shows "fst (decryptResult env s) = Returns None
       \<and> map_option content (resultFile (act (snd (decryptResult env s)))) = Some P"
  using assms
  by (simp add: decryptResult_def aes_NewCipher_def deferring_def emit_def execSync_def
      AES256_OFB_encrypt_XORKeyStream XORKeyStream_involution Let_def)

theorem decryptResult_roundtrip_witness:
  "length (replicate 32 (1 :: byte)) = 32
   \<and> encResultKey (act sample_encrypted) = replicate 32 1
   \<and> content (encResultFile (act sample_encrypted))
       = [11, 22, 29, 44, 55, 58, 65, 88, 83, 110, 101, 116, 143, 130, 153, 144, 174, 188]
   \<and> AES256_OFB_encrypt sample_env (replicate 32 1)
        [10, 20, 30, 40, 50, 60, 70, 80, 90, 100, 110, 120, 130, 140, 150, 160, 170, 180]
       = [11, 22, 29, 44, 55, 58, 65, 88, 83, 110, 101, 116, 143, 130, 153, 144, 174, 188]
   \<and> io_err sample_env ''decryptResult: io.Copy'' = None
   \<and> io_err sample_env ''decryptResult: temp.Close'' = None
   \<and> fst (decryptResult sample_env sample_encrypted) = Returns None
   \<and> map_option content (resultFile (act (snd (decryptResult sample_env sample_encrypted))))
       = Some [10, 20, 30, 40, 50, 60, 70, 80, 90, 100, 110, 120, 130, 140, 150, 160, 170, 180]"
proof -
  have c: "content (encResultFile (act sample_encrypted)) = sample_ciphertext"
    by (simp add: sample_encrypted_def)
  have h: "length (replicate 32 (1 :: byte)) = 32"
    "encResultKey (act sample_encrypted) = replicate 32 1"
    "content (encResultFile (act sample_encrypted))
       = AES256_OFB_encrypt sample_env (replicate 32 1) sample_plaintext"
    "io_err sample_env ''decryptResult: io.Copy'' = None"
    "io_err sample_env ''decryptResult: temp.Close'' = None"
    by (simp_all add: sample_ciphertext_reference c) (simp_all add: sample_encrypted_def sample_env_def)
  from h c sample_ciphertext_reference decryptResult_roundtrip [OF h] show ?thesis
    by (simp add: sample_plaintext_def sample_ciphertext_def)
qed

text \<open>
  C10. \<^verbatim>\<open>decryptResult\<close> is atomic in the field \<open>resultFile\<close>. When the cipher cannot be
  constructed, or copying (which reads the encrypted file) or closing the temporary file
  fails, it returns an error and leaves the whole activity, \<open>resultFile\<close> included, as it
  was. Otherwise it returns no error and the only change is that \<open>resultFile\<close> holds the
  decrypted content: the assignment happens only after the close has succeeded. The
  temporary file, once created, is disposed on every path.
\<close>

theorem decryptResult_atomic:
  "(if isl (aes_NewCipher env (encResultKey (act s)))
       \<or> io_err env ''decryptResult: io.Copy'' \<noteq> None
       \<or> io_err env ''decryptResult: temp.Close'' \<noteq> None
    then (\<exists>e. fst (decryptResult env s) = Returns (Some e))
       \<and> act (snd (decryptResult env s)) = act s
    else fst (decryptResult env s) = Returns None
       \<and> act (snd (decryptResult env s)) = (act s)\<lparr>resultFile := Some (Stored
            (XORKeyStream (aes_Encrypt env (encResultKey (act s))) 0
               (content (encResultFile (act s)))))\<rparr>)
   \<and> events (snd (decryptResult env s)) = events s @
       (if isl (aes_NewCipher env (encResultKey (act s))) then []
        else [EvCreate (temp_result s), EvClose ''encrypted'', EvDispose (temp_result s)])"
  by (auto simp add: decryptResult_def aes_NewCipher_def deferring_def emit_def execSync_def
      temp_result_def Let_def split: sum.splits option.splits)

theorem decryptResult_atomic_witness:
  "fst (decryptResult (failing ''decryptResult: temp.Close'' ''disk full'') sample_encrypted)
     = Returns (Some ''disk full'')
   \<and> resultFile (act (snd (decryptResult (failing ''decryptResult: temp.Close'' ''disk full'')
        sample_encrypted))) = Some (Stored [9])
   \<and> events (snd (decryptResult (failing ''decryptResult: temp.Close'' ''disk full'')
        sample_encrypted))
       = [EvCreate ''Buy #42: result'', EvClose ''encrypted'', EvDispose ''Buy #42: result'']"
proof -
  let ?env = "failing ''decryptResult: temp.Close'' ''disk full''"
  have c: "\<not> isl (aes_NewCipher ?env (encResultKey (act sample_encrypted)))"
    "io_err ?env ''decryptResult: temp.Close'' = Some ''disk full''"
    "io_err ?env ''decryptResult: io.Copy'' = None"
    by (simp_all add: failing_def sample_env_def sample_encrypted_def aes_NewCipher_def)
  have v: "fst (decryptResult ?env sample_encrypted) = Returns (Some e)
           \<Longrightarrow> e = ''disk full''" for e
    using c by (simp add: decryptResult_def Let_def split: sum.splits)
  have s: "resultFile (act sample_encrypted) = Some (Stored [9])"
    "events sample_encrypted = []" "temp_result sample_encrypted = ''Buy #42: result''"
    by (simp_all add: sample_encrypted_def sample_state_def sample_activity_def temp_result_def)
  from decryptResult_atomic [of ?env sample_encrypted] c s v show ?thesis
    by auto
qed

subsection \<open>The sample run\<close>

lemmas sample_defs = sample_env_def sample_state_def sample_activity_def sample_response_def

lemmas run_defs = doRemoteBuy_def doRemoteBuy_transmitting_def interactWithSeller_def
  interactWithSeller_capabilities_def interactWithSeller_transmit_def transmitWorkLinear_def
  postToSeller_def signReceipt_def decryptResult_def aes_NewCipher_def ReadFull_def Key_def
  IsChunked_def hash_Write_def Sum_into_def andThen_def deferring_def emit_def execSync_def Let_def


subsection \<open>The buyer's secret\<close>






subsection \<open>The chunked path\<close>

lemma requestMissingChunks_spawn:
  "EvGo (GoSendSyncInfo si l c) \<in> set (events (snd (requestMissingChunks env si l c s)))"
proof -
  define s1 where "s1 = emit (EvGo (GoSendSyncInfo si l c)) s"
  have "emits (\<lambda>e. True) s1 (snd (requestMissingChunks env si l c s))"
    unfolding requestMissingChunks_def Let_def s1_def [symmetric]
    by (rule emits_deferring, rule emits_andThen, rule emits_postToSeller)
       (auto split: sum.splits intro!: emits_intros)
  from emits_subset [OF this] show ?thesis
    by (auto simp: emit_def s1_def)
qed

lemma transmitWorkChunked_rest_spawn:
  "EvGo (GoSendSyncInfo si l c) \<in> set (events (snd (
     andThen (requestMissingChunks env si l c s)
       (\<lambda>r s2. case r of
          Inl err \<Rightarrow> (Returns (Inl (''Transmitting work (chunked) failed: '' @ err)), s2)
        | Inr wishList \<Rightarrow>
            deferring (emit (EvClose ''r''))
              (sendMissingChunksAndReturnResult env wishList c si s2)))))"
proof -
  have "emits (\<lambda>e. True) (snd (requestMissingChunks env si l c s)) (snd (
     andThen (requestMissingChunks env si l c s)
       (\<lambda>r s2. case r of
          Inl err \<Rightarrow> (Returns (Inl (''Transmitting work (chunked) failed: '' @ err)), s2)
        | Inr wishList \<Rightarrow>
            deferring (emit (EvClose ''r''))
              (sendMissingChunksAndReturnResult env wishList c si s2))))"
    by (rule emits_andThen_snd) (auto split: sum.splits intro!: emits_intros)
  from emits_subset [OF this] requestMissingChunks_spawn show ?thesis
    by blast
qed

lemma sendMissingChunksAndReturnResult_not_too_large:
  "fst (sendMissingChunksAndReturnResult env w c si s) = Returns (Inl e) \<Longrightarrow> \<not> isWorkTooLarge e"
  by (cases "postToSeller env (Pipe (GoSendChunkData w c si)) (FormDataContentType env) c
               (emit (EvGo (GoSendChunkData w c si)) s)")
     (auto simp: sendMissingChunksAndReturnResult_def Let_def deferring_def andThen_def
       isWorkTooLarge_def split: outcome.splits sum.splits)

lemma transmitWorkChunked_rest_not_too_large:
  assumes "fst (andThen (requestMissingChunks env si l c s1)
       (\<lambda>r s2. case r of
          Inl err \<Rightarrow> (Returns (Inl (''Transmitting work (chunked) failed: '' @ err)), s2)
        | Inr wishList \<Rightarrow>
            deferring (emit (EvClose ''r''))
              (sendMissingChunksAndReturnResult env wishList c si s2))) = Returns (Inl e)"
  shows "\<not> isWorkTooLarge e"
  using assms
  by (cases "requestMissingChunks env si l c s1")
     (auto simp: andThen_def isWorkTooLarge_def split: outcome.splits sum.splits
       dest: sendMissingChunksAndReturnResult_not_too_large)

lemma transmitWorkChunked_too_large_iff:
  "(\<exists>e. fst (transmitWorkChunked env c l s) = Returns (Inl e) \<and> isWorkTooLarge e)
   \<longleftrightarrow> NumChunks env (workFile (act s)) > MaxNumberOfChunksInWorkFile env"
proof (cases "NumChunks env (workFile (act s)) > MaxNumberOfChunksInWorkFile env")
  case True
  then show ?thesis
    by (simp add: transmitWorkChunked_def Let_def isWorkTooLarge_def)
next
  case False
  then show ?thesis
    by (auto simp: transmitWorkChunked_def Let_def split: outcome.splits
        dest: transmitWorkChunked_rest_not_too_large)
qed

lemma SetTrivialPermutation_built:
  "SetTrivialPermutation (SetChunksFromFile env f \<lparr>Chunks = [], Perm = NoPermutation\<rparr>)
     = SyncInfo_built env f True"
  by (simp add: SetTrivialPermutation_def SetChunksFromFile_def SyncInfo_built_def)

lemma SetPermutation_built:
  "SetPermutation (pseudorand_Perm env 256)
       (SetChunksFromFile env f \<lparr>Chunks = [], Perm = NoPermutation\<rparr>)
     = SyncInfo_built env f False"
  by (simp add: SetPermutation_def SetChunksFromFile_def SyncInfo_built_def)

lemma transmitWorkChunked_spawn:
  assumes "NumChunks env (workFile (act s)) \<le> MaxNumberOfChunksInWorkFile env"
    and "l \<or> (\<exists>sellerId. mustGetSellerId env (act s) = Returns sellerId)"
  shows "EvGo (GoSendSyncInfo (SyncInfo_built env (workFile (act s)) l) l c)
            \<in> set (events (snd (transmitWorkChunked env c l s)))"
proof (cases l)
  case True
  with assms show ?thesis
    using transmitWorkChunked_rest_spawn
            [of "SyncInfo_built env (workFile (act s)) True" True c env s]
    by (simp add: transmitWorkChunked_def Let_def SetTrivialPermutation_built)
next
  case False
  with assms obtain sellerId where sid: "mustGetSellerId env (act s) = Returns sellerId"
    by blast
  let ?s1 = "emit (EvInitNode sellerId
               (HandprintFromSyncInfo env (SyncInfo_built env (workFile (act s)) False))) s"
  from assms False sid show ?thesis
    using transmitWorkChunked_rest_spawn
            [of "SyncInfo_built env (workFile (act s)) False" False c env ?s1]
    by (auto simp: transmitWorkChunked_def Let_def SetPermutation_built
        intro!: mem_deferring_emit)
qed

lemma andThen_not_Blocks:
  "fst m \<noteq> Blocks \<Longrightarrow> (\<And>x s. fst (k x s) \<noteq> Blocks) \<Longrightarrow> fst (andThen m k) \<noteq> Blocks"
  by (cases m) (auto simp: andThen_def split: outcome.splits)

lemma mustGetSellerId_not_Blocks: "mustGetSellerId env a \<noteq> Blocks"
  by (simp add: mustGetSellerId_def split: option.splits sum.splits)

lemma postToSeller_not_Blocks: "fst (postToSeller env b ct c s) \<noteq> Blocks"
  by (simp add: postToSeller_def Let_def split: option.splits sum.splits)

lemma receiveAssistiveDownloadTickets_not_Blocks:
  "fst (receiveAssistiveDownloadTickets env resp s) \<noteq> Blocks"
  using mustGetSellerId_not_Blocks [of env "act s"]
  by (simp add: receiveAssistiveDownloadTickets_def Let_def split: outcome.splits)

lemma requestMissingChunks_not_Blocks: "fst (requestMissingChunks env si l c s) \<noteq> Blocks"
  unfolding requestMissingChunks_def Let_def fst_deferring
proof (rule andThen_not_Blocks [OF postToSeller_not_Blocks])
  fix x s2
  show "fst (case x of
          Inl err \<Rightarrow> (Returns (Inl (''Error sending work sync data to seller: '' @ err)), s2)
        | Inr resp \<Rightarrow>
            andThen (receiveAssistiveDownloadTickets env resp s2)
              (\<lambda>_ s3. (Returns (Inr (respBody resp)), s3))) \<noteq> Blocks"
    by (cases x)
       (simp_all add: andThen_not_Blocks receiveAssistiveDownloadTickets_not_Blocks)
qed

lemma sendMissingChunksAndReturnResult_not_Blocks:
  "fst (sendMissingChunksAndReturnResult env w c si s) \<noteq> Blocks"
  unfolding sendMissingChunksAndReturnResult_def Let_def fst_deferring
proof (rule andThen_not_Blocks [OF postToSeller_not_Blocks])
  fix x s2
  show "fst (case x of
          Inl err \<Rightarrow> (Returns (Inl (''Error sending work chunk data to seller: '' @ err)), s2)
        | Inr resp \<Rightarrow> (Returns (Inr (respBody resp)), s2)) \<noteq> Blocks"
    by (cases x) simp_all
qed

lemma transmitWorkChunked_rest_not_Blocks:
  "fst (andThen (requestMissingChunks env si l c s)
       (\<lambda>r s2. case r of
          Inl err \<Rightarrow> (Returns (Inl (''Transmitting work (chunked) failed: '' @ err)), s2)
        | Inr wishList \<Rightarrow>
            deferring (emit (EvClose ''r''))
              (sendMissingChunksAndReturnResult env wishList c si s2))) \<noteq> Blocks"
proof (rule andThen_not_Blocks [OF requestMissingChunks_not_Blocks])
  fix x s2
  show "fst (case x of
          Inl err \<Rightarrow> (Returns (Inl (''Transmitting work (chunked) failed: '' @ err)), s2)
        | Inr wishList \<Rightarrow>
            deferring (emit (EvClose ''r''))
              (sendMissingChunksAndReturnResult env wishList c si s2)) \<noteq> Blocks"
    by (cases x) (simp_all add: sendMissingChunksAndReturnResult_not_Blocks)
qed

text \<open>
  C2. The chunked path returns the error of a work file that is too big if and only if
  the number of chunks of the work file exceeds \<^verbatim>\<open>MaxNumberOfChunksInWorkFile\<close>. Within
  the bound (and, in modern mode, with a seller id to register under) the \<^verbatim>\<open>SyncInfo\<close> of
  the work file is built and handed to the producer of the wishlist request.
\<close>

theorem transmitWorkChunked_bound:
  "((\<exists>e. fst (transmitWorkChunked env c l s) = Returns (Inl e) \<and> isWorkTooLarge e)
      \<longleftrightarrow> NumChunks env (workFile (act s)) > MaxNumberOfChunksInWorkFile env)
   \<and> (NumChunks env (workFile (act s)) \<le> MaxNumberOfChunksInWorkFile env
        \<and> (l \<or> (\<exists>sellerId. mustGetSellerId env (act s) = Returns sellerId))
      \<longrightarrow> EvGo (GoSendSyncInfo (SyncInfo_built env (workFile (act s)) l) l c)
            \<in> set (events (snd (transmitWorkChunked env c l s))))"
  using transmitWorkChunked_too_large_iff transmitWorkChunked_spawn
  by blast

theorem transmitWorkChunked_bound_witness:
  "NumChunks sample_env (workFile (act sample_state)) \<le> MaxNumberOfChunksInWorkFile sample_env
   \<and> \<not> (\<exists>e. fst (transmitWorkChunked sample_env False True sample_state) = Returns (Inl e)
            \<and> isWorkTooLarge e)
   \<and> EvGo (GoSendSyncInfo (SyncInfo_built sample_env (workFile (act sample_state)) True)
             True False)
       \<in> set (events (snd (transmitWorkChunked sample_env False True sample_state)))
   \<and> fst (transmitWorkChunked (sample_env\<lparr>cafs_NumChunks := \<lambda>c. 20000\<rparr>) False True
            sample_state)
       = Returns (Inl ''Work file too big: 20000 chunks (only 16384 allowed).'')"
proof -
  have b: "NumChunks sample_env (workFile (act sample_state))
             \<le> MaxNumberOfChunksInWorkFile sample_env"
    by (simp add: sample_defs NumChunks_def)
  have big: "fst (transmitWorkChunked (sample_env\<lparr>cafs_NumChunks := \<lambda>c. 20000\<rparr>) False True
            sample_state)
       = Returns (Inl ''Work file too big: 20000 chunks (only 16384 allowed).'')"
    by (simp add: transmitWorkChunked_def sample_defs NumChunks_def Itoa_def Itoa_nat.simps)
  from b big transmitWorkChunked_bound [of sample_env False True sample_state] show ?thesis
    by auto
qed

text \<open>
  C5. For a chunked transfer within the bound (in modern mode: with seller id \<open>sellerId\<close>):
  the \<^verbatim>\<open>SyncInfo\<close> handed to the wishlist request, and every \<^verbatim>\<open>SyncInfo\<close> handed to a
  producer, is the one built from the work file, whose permutation is the trivial one
  exactly in legacy mode and otherwise the result of \<^verbatim>\<open>pseudorand.Perm(256)\<close>; and the
  node is registered with the ticket registry exactly in modern mode, under the seller id
  and the handprint of that \<^verbatim>\<open>SyncInfo\<close>.
\<close>

theorem transmitWorkChunked_permutation:
  assumes bound: "NumChunks env (workFile (act s)) \<le> MaxNumberOfChunksInWorkFile env"
    and sid: "legacy \<or> mustGetSellerId env (act s) = Returns sellerId"
  shows "let si = SyncInfo_built env (workFile (act s)) legacy;
             es = events (snd (transmitWorkChunked env compressed legacy (s\<lparr>events := []\<rparr>)))
         in EvGo (GoSendSyncInfo si legacy compressed) \<in> set es
          \<and> (\<forall>si' l c. EvGo (GoSendSyncInfo si' l c) \<in> set es \<longrightarrow> si' = si)
          \<and> (\<forall>w c si'. EvGo (GoSendChunkData w c si') \<in> set es \<longrightarrow> si' = si)
          \<and> (Perm si = TrivialPermutation \<longleftrightarrow> legacy)
          \<and> (\<not> legacy \<longrightarrow> Perm si = Permutation (pseudorand_Perm env 256))
          \<and> (\<forall>i h. EvInitNode i h \<in> set es
                \<longleftrightarrow> \<not> legacy \<and> i = sellerId \<and> h = HandprintFromSyncInfo env si)"
proof -
  define si where "si = SyncInfo_built env (workFile (act s)) legacy"
  define s0 where "s0 = s\<lparr>events := []\<rparr>"
  define P where "P = (\<lambda>e. (\<forall>i h. e \<noteq> EvInitNode i h)
      \<and> (\<forall>si' l c. e = EvGo (GoSendSyncInfo si' l c) \<longrightarrow> si' = si)
      \<and> (\<forall>w c si'. e = EvGo (GoSendChunkData w c si') \<longrightarrow> si' = si))"
  define rest where "rest = (\<lambda>s1.
     andThen (requestMissingChunks env si legacy compressed s1)
       (\<lambda>r s2. case r of
          Inl err \<Rightarrow> (Returns (Inl (''Transmitting work (chunked) failed: '' @ err)), s2)
        | Inr wishList \<Rightarrow>
            deferring (emit (EvClose ''r''))
              (sendMissingChunksAndReturnResult env wishList compressed si s2)))"
  have http: "P e" if "http e" for e
    using that by (cases e) (auto simp: P_def)
  have P: "emits P s1 (snd (rest s1))" for s1
    unfolding rest_def
    by (rule emits_transmitWorkChunked_rest) (auto simp: http, auto simp: P_def)
  have act0: "act s0 = act s" and ev0: "events s0 = []"
    by (simp_all add: s0_def)
  have perm: "(Perm si = TrivialPermutation \<longleftrightarrow> legacy)
            \<and> (\<not> legacy \<longrightarrow> Perm si = Permutation (pseudorand_Perm env 256))"
    by (simp add: si_def SyncInfo_built_def)
  have spawn: "EvGo (GoSendSyncInfo si legacy compressed)
                 \<in> set (events (snd (transmitWorkChunked env compressed legacy s0)))"
    unfolding si_def act0 [symmetric]
    by (rule transmitWorkChunked_spawn) (use bound sid act0 in auto)
  have nb: "fst (rest s1) \<noteq> Blocks" for s1
    unfolding rest_def by (rule transmitWorkChunked_rest_not_Blocks)
  have trace: "\<exists>new. list_all P new
      \<and> events (snd (transmitWorkChunked env compressed legacy s0))
          = (if legacy then new
             else EvInitNode sellerId (HandprintFromSyncInfo env si) # new @ [EvExitNode sellerId])"
  proof (cases legacy)
    case True
    have si': "si = SyncInfo_built env (workFile (act s)) True"
      using True by (simp add: si_def)
    have "transmitWorkChunked env compressed legacy s0 = rest s0"
      unfolding rest_def si' using bound True
      by (simp add: transmitWorkChunked_def Let_def act0 SetTrivialPermutation_built)
    with P [of s0] True show ?thesis
      by (auto simp: emits_def ev0)
  next
    case False
    let ?s1 = "emit (EvInitNode sellerId (HandprintFromSyncInfo env si)) s0"
    from False sid have m: "mustGetSellerId env (act s) = Returns sellerId"
      by simp
    have si': "si = SyncInfo_built env (workFile (act s)) False"
      using False by (simp add: si_def)
    have t: "transmitWorkChunked env compressed legacy s0
               = deferring (emit (EvExitNode sellerId)) (rest ?s1)"
      unfolding rest_def si' using bound False m
      by (simp add: transmitWorkChunked_def Let_def act0 SetPermutation_built)
    from P [of ?s1] obtain new where new: "list_all P new"
        "events (snd (rest ?s1)) = events ?s1 @ new"
      by (auto simp: emits_def)
    obtain r s2 where r: "rest ?s1 = (r, s2)"
      by (cases "rest ?s1")
    with nb [of ?s1] have "r \<noteq> Blocks"
      by simp
    with t r new False show ?thesis
      by (auto simp: deferring_def emit_def ev0 split: outcome.splits)
  qed
  then obtain new where new: "list_all P new"
    "events (snd (transmitWorkChunked env compressed legacy s0))
          = (if legacy then new
             else EvInitNode sellerId (HandprintFromSyncInfo env si) # new @ [EvExitNode sellerId])"
    by blast
  from new have only: "\<forall>si' l c. EvGo (GoSendSyncInfo si' l c)
          \<in> set (events (snd (transmitWorkChunked env compressed legacy s0))) \<longrightarrow> si' = si"
    and only2: "\<forall>w c si'. EvGo (GoSendChunkData w c si')
          \<in> set (events (snd (transmitWorkChunked env compressed legacy s0))) \<longrightarrow> si' = si"
    and init: "\<forall>i h. EvInitNode i h
          \<in> set (events (snd (transmitWorkChunked env compressed legacy s0)))
        \<longleftrightarrow> \<not> legacy \<and> i = sellerId \<and> h = HandprintFromSyncInfo env si"
    by (auto simp: list_all_iff P_def split: if_splits)
  from spawn only only2 perm init show ?thesis
    unfolding Let_def si_def [symmetric] s0_def [symmetric]
    by blast
qed

theorem transmitWorkChunked_permutation_witness:
  "NumChunks sample_env (workFile (act sample_state)) \<le> MaxNumberOfChunksInWorkFile sample_env
   \<and> mustGetSellerId sample_env (act sample_state) = Returns ''seller_seller.example''
   \<and> EvGo (GoSendSyncInfo (SyncInfo_built sample_env (workFile (act sample_state)) False)
             False True)
       \<in> set (events (snd (transmitWorkChunked sample_env True False
                 (sample_state\<lparr>events := []\<rparr>))))
   \<and> Perm (SyncInfo_built sample_env (workFile (act sample_state)) False)
       = Permutation (pseudorand_Perm sample_env 256)
   \<and> EvInitNode ''seller_seller.example'' ''handprint''
       \<in> set (events (snd (transmitWorkChunked sample_env True False
                 (sample_state\<lparr>events := []\<rparr>))))"
proof -
  have b: "NumChunks sample_env (workFile (act sample_state))
             \<le> MaxNumberOfChunksInWorkFile sample_env"
    by (simp add: sample_defs NumChunks_def)
  have m: "mustGetSellerId sample_env (act sample_state)
             = Returns ''seller_seller.example''"
    by (simp add: sample_defs mustGetSellerId_def)
  have h: "HandprintFromSyncInfo sample_env si = ''handprint''" for si
    by (simp add: sample_env_def)
  from m have "False \<or> mustGetSellerId sample_env (act sample_state)
             = Returns ''seller_seller.example''"
    by simp
  from transmitWorkChunked_permutation [OF b this, of True] b m h show ?thesis
    by (simp add: Let_def)
qed

subsection \<open>The capability probe\<close>

lemmas emits_basic = emits_emit emits_execSync emits_act emits_andThen emits_deferring

lemma plain_postToSeller:
  "(\<And>e. plain e \<Longrightarrow> P e) \<Longrightarrow> emits P s0 s
   \<Longrightarrow> emits P s0 (snd (postToSeller env b ct False s))"
  by (auto simp: postToSeller_def Let_def split: option.splits sum.splits intro!: emits_basic)

lemma plain_signReceipt:
  "(\<And>e. plain e \<Longrightarrow> P e) \<Longrightarrow> emits P s0 s \<Longrightarrow> emits P s0 (snd (signReceipt env s))"
  by (auto simp: signReceipt_def Let_def split: option.splits sum.splits intro!: emits_basic)

lemma plain_transmitWorkLinear:
  "(\<And>e. plain e \<Longrightarrow> P e) \<Longrightarrow> emits P s0 s
   \<Longrightarrow> emits P s0 (snd (transmitWorkLinear env s))"
  by (auto simp: transmitWorkLinear_def Let_def split: option.splits sum.splits
      intro!: emits_basic plain_postToSeller)

lemma plain_interactWithSeller_transmit:
  "(\<And>e. plain e \<Longrightarrow> P e) \<Longrightarrow> emits P s0 s
   \<Longrightarrow> emits P s0 (snd (interactWithSeller_transmit env False c l s))"
  by (auto simp: interactWithSeller_transmit_def Let_def split: option.splits sum.splits
      intro!: emits_basic plain_transmitWorkLinear plain_signReceipt)

lemma transmitWorkLinear_spawn:
  "EvGo GoSendWork \<in> set (events (snd (transmitWorkLinear env s)))"
proof -
  define s1 where "s1 = emit (EvGo GoSendWork) s"
  have "emits (\<lambda>e. True) s1 (snd (transmitWorkLinear env s))"
    unfolding transmitWorkLinear_def Let_def s1_def [symmetric]
    by (rule emits_andThen, rule emits_postToSeller) (auto split: sum.splits)
  from emits_subset [OF this] show ?thesis
    by (auto simp: emit_def s1_def)
qed

lemma interactWithSeller_transmit_linear_spawn:
  "EvGo GoSendWork \<in> set (events (snd (interactWithSeller_transmit env False c l s)))"
proof -
  have "emits (\<lambda>e. True) (snd (transmitWorkLinear env s))
          (snd (interactWithSeller_transmit env False c l s))"
    unfolding interactWithSeller_transmit_def
    by (simp, rule emits_andThen_snd)
       (auto simp: Let_def split: sum.splits option.splits intro!: emits_intros)
  from emits_subset [OF this] transmitWorkLinear_spawn show ?thesis
    by blast
qed

text \<open>The probe, for a worker URL \<open>u\<close>: what it returns and what it adds to the trace.\<close>

lemma capabilities_probe_fails:
  assumes "WorkerURL (tx (act s)) = Some u" and "IsChunked env (workFile (act s))"
    and "probe_fails env u"
  shows "fst (interactWithSeller_capabilities env s) = Returns (False, False, True)
       \<and> act (snd (interactWithSeller_capabilities env s)) = act s
       \<and> (\<exists>new. events (snd (interactWithSeller_capabilities env s)) = events s @ new
            \<and> set new \<subseteq> {EvHttp (OPTIONS_request u), EvClose ''resp.Body''})"
  using assms
  by (auto simp: interactWithSeller_capabilities_def testSellerForCapabilities_def
      probe_fails_def OPTIONS_request_def andThen_def deferring_def emit_def Let_def
      split: option.splits sum.splits)

lemma capabilities_not_chunked:
  "\<not> IsChunked env (workFile (act s))
   \<Longrightarrow> interactWithSeller_capabilities env s = (Returns (False, False, True), s)"
  by (simp add: interactWithSeller_capabilities_def)

lemma events_deferring_emit:
  "\<exists>tail. events (snd (deferring (emit x) m)) = events (snd m) @ tail \<and> set tail \<subseteq> {x}"
  by (cases m) (auto simp: deferring_def emit_def split: outcome.splits)

lemma interactWithSeller_linear:
  assumes url: "WorkerURL (tx (act s)) = Some u"
    and cond: "\<not> IsChunked env (workFile (act s)) \<or> probe_fails env u"
  defines "s3 \<equiv> snd (interactWithSeller_capabilities env
                       (emit EvScopedTransport (emit (EvGo GoWatchdog) s)))"
  shows "interactWithSeller env s =
           deferring (emit EvExitWatchdog) (deferring (emit EvCloseTransport)
             (interactWithSeller_transmit env False False True s3))"
    and "act s3 = act s"
    and "\<exists>new. events s3 = events s @ [EvGo GoWatchdog, EvScopedTransport] @ new
           \<and> set new \<subseteq> {EvHttp (OPTIONS_request u), EvClose ''resp.Body''}
           \<and> (\<not> IsChunked env (workFile (act s)) \<longrightarrow> new = [])"
proof -
  let ?s2 = "emit EvScopedTransport (emit (EvGo GoWatchdog) s)"
  have a2: "act ?s2 = act s" and e2: "events ?s2 = events s @ [EvGo GoWatchdog, EvScopedTransport]"
    by (simp_all add: emit_def)
  have caps: "fst (interactWithSeller_capabilities env ?s2) = Returns (False, False, True)
       \<and> act s3 = act s
       \<and> (\<exists>new. events s3 = events ?s2 @ new
            \<and> set new \<subseteq> {EvHttp (OPTIONS_request u), EvClose ''resp.Body''}
            \<and> (\<not> IsChunked env (workFile (act s)) \<longrightarrow> new = []))"
  proof (cases "IsChunked env (workFile (act s))")
    case True
    with cond have "probe_fails env u" by simp
    with capabilities_probe_fails [of ?s2 u env] url True show ?thesis
      by (simp add: a2 s3_def)
  next
    case False
    with capabilities_not_chunked [of env ?s2] show ?thesis
      by (simp add: a2 s3_def)
  qed
  then show "act s3 = act s"
    by simp
  from caps e2 show "\<exists>new. events s3 = events s @ [EvGo GoWatchdog, EvScopedTransport] @ new
           \<and> set new \<subseteq> {EvHttp (OPTIONS_request u), EvClose ''resp.Body''}
           \<and> (\<not> IsChunked env (workFile (act s)) \<longrightarrow> new = [])"
    by auto
  from caps have "interactWithSeller_capabilities env ?s2 = (Returns (False, False, True), s3)"
    by (simp add: s3_def prod_eq_iff)
  then show "interactWithSeller env s =
           deferring (emit EvExitWatchdog) (deferring (emit EvCloseTransport)
             (interactWithSeller_transmit env False False True s3))"
    by (simp add: interactWithSeller_def Let_def andThen_def)
qed

text \<open>
  C3. With a worker URL \<open>u\<close>: when the work file is chunked and the probe fails (the
  OPTIONS request cannot be made or errors, the status is not 200, or the body does not
  decode), the probe yields \<open>chunked = false\<close>, \<open>compressed = false\<close>, \<open>legacy = true\<close> and
  no error. When the work file is not chunked, the same values are used and nothing is
  sent. In both cases \<^verbatim>\<open>interactWithSeller\<close> is the linear transmission with these
  values: its result is that of the transmission after the probe, the producer of the
  linear path is started, no other producer is, no request is gzip-encoded, and an OPTIONS
  request is in the trace only when the work file is chunked.
\<close>

theorem interactWithSeller_probe:
  assumes url: "WorkerURL (tx (act s)) = Some u"
  shows "(IsChunked env (workFile (act s)) \<and> probe_fails env u \<longrightarrow>
            fst (interactWithSeller_capabilities env s) = Returns (False, False, True)
          \<and> act (snd (interactWithSeller_capabilities env s)) = act s)
       \<and> (\<not> IsChunked env (workFile (act s)) \<longrightarrow>
            interactWithSeller_capabilities env s = (Returns (False, False, True), s))
       \<and> (\<not> IsChunked env (workFile (act s)) \<or> probe_fails env u \<longrightarrow>
            (let s0 = s\<lparr>events := []\<rparr>;
                 s3 = snd (interactWithSeller_capabilities env
                        (emit EvScopedTransport (emit (EvGo GoWatchdog) s0)));
                 es = events (snd (interactWithSeller env s0))
             in act s3 = act s
              \<and> fst (interactWithSeller env s0)
                  = fst (interactWithSeller_transmit env False False True s3)
              \<and> EvGo GoSendWork \<in> set es
              \<and> (\<forall>g. EvGo g \<in> set es \<longrightarrow> g = GoWatchdog \<or> g = GoSendWork)
              \<and> (\<forall>r. EvHttp r \<in> set es \<longrightarrow> (''Content-Encoding'', ''gzip'') \<notin> set (Header r))
              \<and> (\<forall>r. EvHttp r \<in> set es \<and> Method r = ''OPTIONS''
                    \<longrightarrow> IsChunked env (workFile (act s)))))"
proof -
  have A: "IsChunked env (workFile (act s)) \<and> probe_fails env u \<longrightarrow>
            fst (interactWithSeller_capabilities env s) = Returns (False, False, True)
          \<and> act (snd (interactWithSeller_capabilities env s)) = act s"
    using capabilities_probe_fails [of s u env] url by simp
  have B: "\<not> IsChunked env (workFile (act s)) \<longrightarrow>
            interactWithSeller_capabilities env s = (Returns (False, False, True), s)"
    by (simp add: capabilities_not_chunked)
  have C: "act s3 = act s
              \<and> fst (interactWithSeller env s0)
                  = fst (interactWithSeller_transmit env False False True s3)
              \<and> EvGo GoSendWork \<in> set es
              \<and> (\<forall>g. EvGo g \<in> set es \<longrightarrow> g = GoWatchdog \<or> g = GoSendWork)
              \<and> (\<forall>r. EvHttp r \<in> set es \<longrightarrow> (''Content-Encoding'', ''gzip'') \<notin> set (Header r))
              \<and> (\<forall>r. EvHttp r \<in> set es \<and> Method r = ''OPTIONS''
                    \<longrightarrow> IsChunked env (workFile (act s)))"
    if cond: "\<not> IsChunked env (workFile (act s)) \<or> probe_fails env u"
      and s0: "s0 = s\<lparr>events := []\<rparr>"
      and s3: "s3 = snd (interactWithSeller_capabilities env
                        (emit EvScopedTransport (emit (EvGo GoWatchdog) s0)))"
      and es: "es = events (snd (interactWithSeller env s0))"
    for s0 s3 es
  proof -
    have a0: "act s0 = act s" and e0: "events s0 = []"
      by (simp_all add: s0)
    from url cond a0 have url0: "WorkerURL (tx (act s0)) = Some u"
      and cond0: "\<not> IsChunked env (workFile (act s0)) \<or> probe_fails env u"
      by simp_all
    note L = interactWithSeller_linear [OF url0 cond0, folded s3]
    from L(3) obtain new where new: "events s3 = [EvGo GoWatchdog, EvScopedTransport] @ new"
      "set new \<subseteq> {EvHttp (OPTIONS_request u), EvClose ''resp.Body''}"
      "\<not> IsChunked env (workFile (act s)) \<longrightarrow> new = []"
      by (auto simp: e0 a0)
    let ?t = "interactWithSeller_transmit env False False True s3"
    have "emits plain s3 (snd ?t)"
      by (rule plain_interactWithSeller_transmit) simp_all
    then obtain tnew where tnew: "events (snd ?t) = events s3 @ tnew" "list_all plain tnew"
      by (auto simp: emits_def)
    obtain t1 where t1: "events (snd (deferring (emit EvCloseTransport) ?t))
        = events (snd ?t) @ t1" "set t1 \<subseteq> {EvCloseTransport}"
      using events_deferring_emit by blast
    obtain t2 where t2: "es = events (snd (deferring (emit EvCloseTransport) ?t)) @ t2"
      "set t2 \<subseteq> {EvExitWatchdog}"
      unfolding es L(1) using events_deferring_emit by blast
    have es': "es = [EvGo GoWatchdog, EvScopedTransport] @ new @ tnew @ t1 @ t2"
      by (simp add: t2 t1 tnew new)
    have spawn: "EvGo GoSendWork \<in> set es"
      using interactWithSeller_transmit_linear_spawn [of env False True s3] tnew new
      by (auto simp: es')
    have plainD: "e \<in> set tnew \<Longrightarrow> plain e" for e
      using tnew(2) by (simp add: list_all_iff)
    have go: "\<forall>g. EvGo g \<in> set es \<longrightarrow> g = GoWatchdog \<or> g = GoSendWork"
      using new(2) t1(2) t2(2) by (auto simp: es' dest: plainD)
    have gz: "\<forall>r. EvHttp r \<in> set es \<longrightarrow> (''Content-Encoding'', ''gzip'') \<notin> set (Header r)"
      using new(2) t1(2) t2(2) by (auto simp: es' OPTIONS_request_def dest: plainD)
    have opt: "\<forall>r. EvHttp r \<in> set es \<and> Method r = ''OPTIONS''
                    \<longrightarrow> IsChunked env (workFile (act s))"
      using new(2,3) t1(2) t2(2) by (auto simp: es' dest: plainD)
    from L(1,2) a0 spawn go gz opt show ?thesis
      by simp
  qed
  from A B C show ?thesis
    unfolding Let_def by blast
qed

theorem interactWithSeller_probe_witness:
  "WorkerURL (tx (act sample_state)) = Some ''https://seller.example/''
   \<and> IsChunked sample_no_options (workFile (act sample_state))
   \<and> probe_fails sample_no_options ''https://seller.example/''
   \<and> fst (interactWithSeller_capabilities sample_no_options sample_state)
       = Returns (False, False, True)
   \<and> EvGo GoSendWork
       \<in> set (events (snd (interactWithSeller sample_no_options (sample_state\<lparr>events := []\<rparr>))))"
proof -
  have u: "WorkerURL (tx (act sample_state)) = Some ''https://seller.example/''"
    by (simp add: sample_defs)
  have c: "IsChunked sample_no_options (workFile (act sample_state))"
    by (simp add: sample_no_options_def sample_defs IsChunked_def)
  have p: "probe_fails sample_no_options ''https://seller.example/''"
    by (simp add: probe_fails_def sample_no_options_def sample_defs OPTIONS_request_def)
  from u c p interactWithSeller_probe [OF u, of sample_no_options] show ?thesis
    by (simp add: Let_def)
qed

subsection \<open>Failures in the Transmitting state\<close>

lemma doRemoteBuy_transmitting_result:
  assumes "fst (interactWithSeller env s) = Returns sellerErr"
    and "s1 = snd (interactWithSeller env s)"
    and "waitForTransactionPhase env PhaseUnverified [PhaseTransmitting, PhaseWorking] (act s1)
           = (phaseErr, a6)"
    and "s3 = s1\<lparr>act := a6\<lparr>encResultKey := ResultDecryptionKey (tx a6)\<rparr>\<rparr>"
  shows "fst (doRemoteBuy_transmitting env s) =
     (case sellerErr of
        None \<Rightarrow>
          (case phaseErr of
             None \<Rightarrow>
               (case fst (decryptResult env s3) of
                  Returns None \<Rightarrow> Returns (Inr (resultFile (act (snd (decryptResult env s3)))))
                | Returns (Some e) \<Rightarrow> Returns (Inl (''Error decrypting result: '' @ e))
                | Panics p \<Rightarrow> Panics p
                | Blocks \<Rightarrow> Blocks)
           | Some pe \<Rightarrow> Returns (Inl (''Error awaiting UNVERIFIED phase: '' @ pe)))
      | Some se \<Rightarrow>
          (case phaseErr of
             None \<Rightarrow>
               Returns (Inl (''Error transmitting work and receiving encrypted result: '' @ se))
           | Some pe \<Rightarrow>
               Returns (Inl (''Error awaiting UNVERIFIED phase: '' @ pe @ ''. Additionally: ''
                 @ ''Error transmitting work and receiving encrypted result: '' @ se))))"
proof -
  from assms(1,2) have i: "interactWithSeller env s = (Returns sellerErr, s1)"
    by (simp add: prod_eq_iff)
  obtain r s4 where d: "decryptResult env s3 = (r, s4)"
    by (cases "decryptResult env s3")
  show ?thesis
    using assms(3,4) d
    by (cases sellerErr; cases phaseErr; cases r)
       (auto simp: doRemoteBuy_transmitting_def i andThen_def execSync_def emit_def Let_def
         split: option.splits)
qed

text \<open>
  C4. Let \<^verbatim>\<open>doRemoteBuy\<close> have reached the Transmitting state \<open>s\<close>: the trade has begun, the
  secret is drawn, the EstablishBuyer message is sent and the wait for Transmitting has
  succeeded. Let the seller interaction return \<open>sellerErr\<close> and the wait for Unverified
  \<open>phaseErr\<close>. Then \<^verbatim>\<open>doRemoteBuy\<close> returns: the phase failure alone, or the seller failure
  alone, when only that one failed; one error made of both messages when both failed; and
  otherwise what the decryption under the transaction's key gives.
\<close>

theorem doRemoteBuy_transmitting_failures:
  assumes "beginRemoteTrade env (act s0) = (None, a1)"
    and "ReadFull (rand_Reader env) 32 = Inr secret"
    and "a2 = a1\<lparr>buyerSecret := secret\<rparr>"
    and "wh = Key env (workFile a2)"
    and "wsh = Sum_into env (hash_Write (hash_Write [] wh) secret) (replicate 32 0)"
    and "SendTxMessageEstablishBuyer env (txId a2) (identity a2) wh wsh = None"
    and "waitForTransactionPhase env PhaseTransmitting
           [PhaseEstablishing, PhaseSellerEstablished, PhaseBuyerEstablished] a2 = (None, a5)"
    and "s = s0\<lparr>events := events s0 @
               [EvGo GoPollTransaction, EvEstablishBuyer (txId a2) (identity a2) wh wsh],
              act := a5\<rparr>"
    and "fst (interactWithSeller env s) = Returns sellerErr"
    and "s1 = snd (interactWithSeller env s)"
    and "waitForTransactionPhase env PhaseUnverified [PhaseTransmitting, PhaseWorking] (act s1)
           = (phaseErr, a6)"
    and "s3 = s1\<lparr>act := a6\<lparr>encResultKey := ResultDecryptionKey (tx a6)\<rparr>\<rparr>"
  shows "fst (doRemoteBuy env s0) =
     (case sellerErr of
        None \<Rightarrow>
          (case phaseErr of
             None \<Rightarrow>
               (case fst (decryptResult env s3) of
                  Returns None \<Rightarrow> Returns (Inr (resultFile (act (snd (decryptResult env s3)))))
                | Returns (Some e) \<Rightarrow> Returns (Inl (''Error decrypting result: '' @ e))
                | Panics p \<Rightarrow> Panics p
                | Blocks \<Rightarrow> Blocks)
           | Some pe \<Rightarrow> Returns (Inl (''Error awaiting UNVERIFIED phase: '' @ pe)))
      | Some se \<Rightarrow>
          (case phaseErr of
             None \<Rightarrow>
               Returns (Inl (''Error transmitting work and receiving encrypted result: '' @ se))
           | Some pe \<Rightarrow>
               Returns (Inl (''Error awaiting UNVERIFIED phase: '' @ pe @ ''. Additionally: ''
                 @ ''Error transmitting work and receiving encrypted result: '' @ se))))"
proof -
  have "fst (doRemoteBuy env s0) = fst (doRemoteBuy_transmitting env s)"
    using assms(1-8)
    by (simp add: doRemoteBuy_def Let_def execSync_def emit_def)
  with doRemoteBuy_transmitting_result [OF assms(9-12)] show ?thesis
    by simp
qed

theorem doRemoteBuy_transmitting_failures_witness:
  "fst (doRemoteBuy sample_both_fail sample_state) =
     Returns (Inl (''Error awaiting UNVERIFIED phase: transaction retired. Additionally: ''
       @ ''Error transmitting work and receiving encrypted result: connection refused''))"
proof -
  let ?a2 = "sample_activity\<lparr>buyerSecret := replicate 32 5\<rparr>"
  let ?s = "sample_state\<lparr>events := events sample_state @
               [EvGo GoPollTransaction,
                EvEstablishBuyer (txId ?a2) (identity ?a2) (replicate 32 1) (replicate 32 192)],
              act := ?a2\<rparr>"
  have h1: "beginRemoteTrade sample_both_fail (act sample_state) = (None, sample_activity)"
    by (simp add: sample_both_fail_def sample_defs)
  have h2: "ReadFull (rand_Reader sample_both_fail) 32 = Inr (replicate 32 5)"
    by (simp add: sample_both_fail_def sample_defs ReadFull_def)
  have h4: "replicate 32 1 = Key sample_both_fail (workFile ?a2)"
    by (simp add: sample_both_fail_def sample_defs Key_def)
  have h5: "replicate 32 192 = Sum_into sample_both_fail
              (hash_Write (hash_Write [] (replicate 32 1)) (replicate 32 5)) (replicate 32 0)"
    by (simp add: sample_both_fail_def sample_defs Sum_into_def hash_Write_def
        sum_list_replicate)
  have h6: "SendTxMessageEstablishBuyer sample_both_fail (txId ?a2) (identity ?a2)
              (replicate 32 1) (replicate 32 192) = None"
    by (simp add: sample_both_fail_def sample_defs)
  have h7: "waitForTransactionPhase sample_both_fail PhaseTransmitting
           [PhaseEstablishing, PhaseSellerEstablished, PhaseBuyerEstablished] ?a2 = (None, ?a2)"
    by (simp add: sample_both_fail_def sample_defs)
  have h9: "fst (interactWithSeller sample_both_fail ?s) = Returns (Some ''connection refused'')"
    by (simp add: run_defs sample_both_fail_def sample_defs)
  have h11: "waitForTransactionPhase sample_both_fail PhaseUnverified
           [PhaseTransmitting, PhaseWorking] (act (snd (interactWithSeller sample_both_fail ?s)))
           = (Some ''transaction retired'', act (snd (interactWithSeller sample_both_fail ?s)))"
    by (simp add: sample_both_fail_def sample_defs)
  from doRemoteBuy_transmitting_failures [OF h1 h2 refl h4 h5 h6 h7 refl h9 refl h11 refl]
  show ?thesis
    by simp
qed

subsection \<open>The local buy\<close>

lemma after_simps [simp]: "after sell [] = sell" "after sell (m # ms) = after (m sell) ms"
  by (simp_all add: after_def)

lemma doLocalBuy_wait_simps:
  "doLocalBuy_wait sell None =
     (if waiting sell then (True, None) else (False, map_option Duplicate (sellResultFile sell)))"
  by (auto simp: doLocalBuy_wait_def waiting_def split: option.splits)

lemma waiting_prefix_Cons:
  assumes "waiting sell" and "\<forall>k<length ms. waiting (after (m sell) (take k ms))"
  shows "\<forall>k<length (m # ms). waiting (after sell (take k (m # ms)))"
proof (intro allI impI)
  fix k assume "k < length (m # ms)"
  with assms show "waiting (after sell (take k (m # ms)))"
    by (cases k) auto
qed

lemma waiting_prefix_Cons_le:
  assumes "waiting sell" and "\<forall>k\<le>length ms. waiting (after (m sell) (take k ms))"
  shows "\<forall>k\<le>length (m # ms). waiting (after sell (take k (m # ms)))"
proof (intro allI impI)
  fix k assume "k \<le> length (m # ms)"
  with assms show "waiting (after sell (take k (m # ms)))"
    by (cases k) auto
qed

lemma interruptibleWaitWhile_doLocalBuy:
  "case interruptibleWaitWhile ws doLocalBuy_wait sell None of
     Blocks \<Rightarrow>
       (\<exists>ms. ws = map Mutation ms \<and> (\<forall>k\<le>length ms. waiting (after sell (take k ms))))
   | Panics p \<Rightarrow> False
   | Returns (err, sell', rf) \<Rightarrow>
       (\<exists>ms rest. ws = map Mutation ms @ rest \<and> sell' = after sell ms
          \<and> (\<forall>k<length ms. waiting (after sell (take k ms)))
          \<and> (if waiting sell'
              then \<exists>e. take 1 rest = [Interrupt e] \<and> err = Some e \<and> rf = None
              else err = None \<and> rf = map_option Duplicate (sellResultFile sell')))"
proof (induction ws arbitrary: sell)
  case Nil
  show ?case
    by (simp add: doLocalBuy_wait_simps)
next
  case (Cons w ws)
  show ?case
  proof (cases "waiting sell")
    case False
    then have eq: "interruptibleWaitWhile (w # ws) doLocalBuy_wait sell None
                 = Returns (None, sell, map_option Duplicate (sellResultFile sell))"
      by (simp add: doLocalBuy_wait_simps)
    have "w # ws = map Mutation [] @ (w # ws) \<and> sell = after sell []
          \<and> (\<forall>k<length ([] :: (SellActivity \<Rightarrow> SellActivity) list).
                waiting (after sell (take k [])))"
      by simp
    with False show ?thesis
      unfolding eq by (simp only: outcome.case prod.case if_False) blast
  next
    case True
    show ?thesis
    proof (cases w)
      case (Interrupt e)
      with True have eq: "interruptibleWaitWhile (w # ws) doLocalBuy_wait sell None
                 = Returns (Some e, sell, None)"
        by (simp add: doLocalBuy_wait_simps)
      have "w # ws = map Mutation [] @ (w # ws) \<and> sell = after sell []
          \<and> (\<forall>k<length ([] :: (SellActivity \<Rightarrow> SellActivity) list).
                waiting (after sell (take k [])))
          \<and> (\<exists>e'. take 1 (w # ws) = [Interrupt e'] \<and> Some e = Some e'
                \<and> (None :: File option) = None)"
        using Interrupt by simp
      with True show ?thesis
        unfolding eq by (simp only: outcome.case prod.case if_True) blast
    next
      case (Mutation m)
      with True have eq: "interruptibleWaitWhile (w # ws) doLocalBuy_wait sell None
                 = interruptibleWaitWhile ws doLocalBuy_wait (m sell) None"
        by (simp add: doLocalBuy_wait_simps)
      show ?thesis
      proof (cases "interruptibleWaitWhile ws doLocalBuy_wait (m sell) None")
        case Blocks
        with Cons.IH [of "m sell"] obtain ms where ms: "ws = map Mutation ms"
          "\<forall>k\<le>length ms. waiting (after (m sell) (take k ms))"
          by auto
        from waiting_prefix_Cons_le [of sell ms m, OF True ms(2)] ms(1) Mutation
        have "w # ws = map Mutation (m # ms)
            \<and> (\<forall>k\<le>length (m # ms). waiting (after sell (take k (m # ms))))"
          by simp
        then show ?thesis
          unfolding eq Blocks by (simp only: outcome.case) blast
      next
        case (Panics p)
        with Cons.IH [of "m sell"] show ?thesis
          unfolding eq by simp
      next
        case (Returns x)
        obtain err sell' rf where x: "x = (err, sell', rf)"
          by (cases x)
        with Returns Cons.IH [of "m sell"] obtain ms rest where ms:
          "ws = map Mutation ms @ rest" "sell' = after (m sell) ms"
          "\<forall>k<length ms. waiting (after (m sell) (take k ms))"
          "if waiting sell'
              then \<exists>e. take 1 rest = [Interrupt e] \<and> err = Some e \<and> rf = None
              else err = None \<and> rf = map_option Duplicate (sellResultFile sell')"
          by auto
        from waiting_prefix_Cons [of sell ms m, OF True ms(3)] ms(1,2,4) Mutation
        have "w # ws = map Mutation (m # ms) @ rest \<and> sell' = after sell (m # ms)
          \<and> (\<forall>k<length (m # ms). waiting (after sell (take k (m # ms))))
          \<and> (if waiting sell'
              then \<exists>e. take 1 rest = [Interrupt e] \<and> err = Some e \<and> rf = None
              else err = None \<and> rf = map_option Duplicate (sellResultFile sell'))"
          by simp
        then show ?thesis
          unfolding eq Returns x by (simp only: outcome.case prod.case) blast
      qed
    qed
  qed
qed

lemma Duplicate_neq: "Duplicate f \<noteq> f"
  by (induction f) simp_all

text \<open>
  C8, as the code has it. A local buy with paired sell \<open>sell0\<close> never panics. It blocks only
  if every wake-up is a mutation of the sell that leaves it alive without a result. When
  it returns, the sell has been alive without a result in every state before the one that
  ended the wait. If the wait ended because the sell had a result file, the buy returns a
  duplicate of it, distinct from the sell's handle and with the same content, and stores
  it as its own \<open>resultFile\<close>; if the sell had died without a result, the buy fails with
  the error that the sell did not produce a result. The third way out is an interrupt
  while the sell is still alive without a result: the buy then does not wait for the sell
  any longer and fails with the error of the wait.
\<close>

theorem doLocalBuy_result:
  assumes "localMatch (act s) = Some sell0"
  shows "case fst (doLocalBuy env s) of
     Blocks \<Rightarrow>
       (\<exists>ms. sell_wakes env = map Mutation ms
          \<and> (\<forall>k\<le>length ms. waiting (after sell0 (take k ms))))
   | Panics p \<Rightarrow> False
   | Returns r \<Rightarrow>
       (\<exists>ms rest. sell_wakes env = map Mutation ms @ rest
          \<and> (\<forall>k<length ms. waiting (after sell0 (take k ms)))
          \<and> (let sell = after sell0 ms; s' = snd (doLocalBuy env s)
             in localMatch (act s') = Some sell
              \<and> (if waiting sell
                  then (\<exists>e. take 1 rest = [Interrupt e]
                          \<and> r = Inl (''Error waiting for local sell to complete: '' @ e))
                     \<and> resultFile (act s') = resultFile (act s)
                  else (case sellResultFile sell of
                          Some f \<Rightarrow>
                            r = Inr (Some (Duplicate f))
                          \<and> resultFile (act s') = Some (Duplicate f)
                          \<and> Duplicate f \<noteq> f \<and> content (Duplicate f) = content f
                        | None \<Rightarrow>
                            r = Inl (''Sell didn't produce a result: #'' @ sellKey sell)
                          \<and> resultFile (act s') = resultFile (act s)))))"
proof (cases "interruptibleWaitWhile (sell_wakes env) doLocalBuy_wait sell0 None")
  case Blocks
  with interruptibleWaitWhile_doLocalBuy [of "sell_wakes env" sell0] assms show ?thesis
    by (simp add: doLocalBuy_def)
next
  case (Panics p)
  with interruptibleWaitWhile_doLocalBuy [of "sell_wakes env" sell0] show ?thesis
    by simp
next
  case (Returns x)
  obtain err sell rf where x: "x = (err, sell, rf)"
    by (cases x)
  with Returns interruptibleWaitWhile_doLocalBuy [of "sell_wakes env" sell0]
  obtain ms rest where ms: "sell_wakes env = map Mutation ms @ rest" "sell = after sell0 ms"
      "\<forall>k<length ms. waiting (after sell0 (take k ms))"
      "if waiting sell
       then \<exists>e. take 1 rest = [Interrupt e] \<and> err = Some e \<and> rf = None
       else err = None \<and> rf = map_option Duplicate (sellResultFile sell)"
    by auto
  show ?thesis
  proof (cases "waiting sell")
    case True
    with ms(4) obtain e where e: "take 1 rest = [Interrupt e]" "err = Some e" "rf = None"
      by auto
    have "fst (doLocalBuy env s)
            = Returns (Inl (''Error waiting for local sell to complete: '' @ e))"
      "localMatch (act (snd (doLocalBuy env s))) = Some sell"
      "resultFile (act (snd (doLocalBuy env s))) = resultFile (act s)"
      using assms Returns x e by (simp_all add: doLocalBuy_def execSync_def Let_def)
    with True ms(1,2,3) e(1) show ?thesis
      by (simp only: outcome.case Let_def) (intro exI [of _ ms] exI [of _ rest], simp)
  next
    case False
    with ms(4) have e: "err = None" "rf = map_option Duplicate (sellResultFile sell)"
      by auto
    show ?thesis
    proof (cases "sellResultFile sell")
      case None
      have "fst (doLocalBuy env s)
              = Returns (Inl (''Sell didn't produce a result: #'' @ sellKey sell))"
        "localMatch (act (snd (doLocalBuy env s))) = Some sell"
        "resultFile (act (snd (doLocalBuy env s))) = resultFile (act s)"
        using assms Returns x e None by (simp_all add: doLocalBuy_def execSync_def Let_def)
      with False None ms(1,2,3) show ?thesis
        by (simp only: outcome.case Let_def) (intro exI [of _ ms] exI [of _ rest], simp)
    next
      case (Some f)
      have "fst (doLocalBuy env s) = Returns (Inr (Some (Duplicate f)))"
        "localMatch (act (snd (doLocalBuy env s))) = Some sell"
        "resultFile (act (snd (doLocalBuy env s))) = Some (Duplicate f)"
        using assms Returns x e Some by (simp_all add: doLocalBuy_def execSync_def Let_def)
      with False Some ms(1,2,3) show ?thesis
        by (simp only: outcome.case Let_def)
           (intro exI [of _ ms] exI [of _ rest], simp add: Duplicate_neq)
    qed
  qed
qed

theorem doLocalBuy_result_witness:
  "localMatch (act sample_local) = Some sample_sell
   \<and> fst (doLocalBuy sample_local_env sample_local)
       = Returns (Inr (Some (Duplicate (Stored [4, 5]))))
   \<and> resultFile (act (snd (doLocalBuy sample_local_env sample_local)))
       = Some (Duplicate (Stored [4, 5]))
   \<and> (case fst (doLocalBuy sample_local_env sample_local) of
         Returns r \<Rightarrow> True | Panics p \<Rightarrow> False | Blocks \<Rightarrow> False)"
proof -
  have l: "localMatch (act sample_local) = Some sample_sell"
    by (simp add: sample_local_def sample_defs)
  have r: "fst (doLocalBuy sample_local_env sample_local)
       = Returns (Inr (Some (Duplicate (Stored [4, 5]))))"
    "resultFile (act (snd (doLocalBuy sample_local_env sample_local)))
       = Some (Duplicate (Stored [4, 5]))"
    by (simp_all add: doLocalBuy_def doLocalBuy_wait_def sample_local_env_def sample_local_def
        sample_sell_def sample_defs execSync_def Let_def)
  from doLocalBuy_result [OF l, of sample_local_env] l r show ?thesis
    by simp
qed

text \<open>
  C8, as the claim has it, fails in a run where the wait is interrupted: the local buy
  returns the error of the wait while the paired sell is still alive and has no result
  file.
\<close>

theorem doLocalBuy_waits_counterexample:
  "fst (doLocalBuy sample_interrupt_env sample_local)
     = Returns (Inl ''Error waiting for local sell to complete: interrupted'')
   \<and> localMatch (act (snd (doLocalBuy sample_interrupt_env sample_local))) = Some sample_sell
   \<and> sellAlive sample_sell \<and> sellResultFile sample_sell = None
   \<and> \<not> waited_for_sell sample_interrupt_env sample_local"
proof -
  have r: "doLocalBuy sample_interrupt_env sample_local
       = (Returns (Inl ''Error waiting for local sell to complete: interrupted''),
          sample_local)"
    by (simp add: doLocalBuy_def doLocalBuy_wait_def sample_interrupt_env_def sample_local_def
        sample_sell_def sample_defs execSync_def Let_def)
  show ?thesis
    unfolding waited_for_sell_def r
    by (simp add: sample_local_def sample_sell_def sample_defs waiting_def)
qed

subsection \<open>The alive flag\<close>

text \<open>
  C9. Whenever \<^verbatim>\<open>PerformBuy\<close> returns (or panics), with a result or with an error, the
  activity is not alive in the state it leaves. The finalizer \<^verbatim>\<open>finishBuy\<close>, which a
  successful remote buy starts, clears the flag again when it completes, and never sets
  it: started on any state, it leaves the activity alive only if it was alive before.
\<close>

theorem PerformBuy_alive:
  "(fst (PerformBuy env f s) \<noteq> Blocks \<longrightarrow> \<not> alive (act (snd (PerformBuy env f s))))
   \<and> (fst (finishBuy env s1) = Returns None \<longrightarrow> \<not> alive (act (snd (finishBuy env s1))))
   \<and> (alive (act (snd (finishBuy env s1))) \<longrightarrow> alive (act s1))"
proof -
  have d: "fst (deferring d m) \<noteq> Blocks \<Longrightarrow> snd (deferring d m) = d (snd m)"
    for d and m :: "(error + File option) outcome \<times> state"
    by (cases m) (auto simp: deferring_def split: outcome.splits)
  have A: "fst (PerformBuy env f s) \<noteq> Blocks \<longrightarrow> \<not> alive (act (snd (PerformBuy env f s)))"
    by (auto simp: PerformBuy_def Let_def d execSync_def)
  have B: "fst (finishBuy env s1) = Returns None \<longrightarrow> \<not> alive (act (snd (finishBuy env s1)))"
    by (auto simp: finishBuy_def Let_def deferring_def execSync_def emit_def
        split: option.splits outcome.splits)
  have C: "alive (act (snd (finishBuy env s1))) \<longrightarrow> alive (act s1)"
    by (auto simp: finishBuy_def Let_def deferring_def execSync_def emit_def
        split: option.splits outcome.splits)
  from A B C show ?thesis
    by blast
qed

lemma sample_PerformBuy:
  "fst (PerformBuy sample_env (Stored [1, 2]) sample_state)
     = Returns (Inr (Some (Stored
          (XORKeyStream (aes_Encrypt sample_env (replicate 32 1)) 0 [1, 2, 3]))))"
  by (simp add: PerformBuy_def doPerformBuy_def run_defs sample_defs sum_list_replicate)

theorem PerformBuy_alive_witness:
  "alive (act sample_state)
   \<and> fst (PerformBuy sample_env (Stored [1, 2]) sample_state) \<noteq> Blocks
   \<and> \<not> alive (act (snd (PerformBuy sample_env (Stored [1, 2]) sample_state)))
   \<and> fst (finishBuy sample_env sample_state) = Returns None
   \<and> \<not> alive (act (snd (finishBuy sample_env sample_state)))
   \<and> alive (act (snd (finishBuy (sample_env\<lparr>SendTxMessageAcceptResult := \<lambda>t i. Some ''offline''\<rparr>)
                          sample_state)))"
proof -
  let ?offline = "sample_env\<lparr>SendTxMessageAcceptResult := \<lambda>t i. Some ''offline''\<rparr>"
  have a: "alive (act sample_state)"
    by (simp add: sample_defs)
  have p: "fst (PerformBuy sample_env (Stored [1, 2]) sample_state) \<noteq> Blocks"
    by (simp add: sample_PerformBuy)
  have f: "fst (finishBuy sample_env sample_state) = Returns None"
    by (simp add: finishBuy_def sample_defs Let_def)
  have o: "alive (act (snd (finishBuy ?offline sample_state)))"
    by (simp add: finishBuy_def sample_defs Let_def deferring_def emit_def)
  from a p f o PerformBuy_alive [of sample_env "Stored [1, 2]" sample_state sample_state]
    PerformBuy_alive [of ?offline "Stored [1, 2]" sample_state sample_state]
  show ?thesis
    by simp
qed

subsection \<open>The producer of the chunk data\<close>

lemma sample_chunkdata_trace:
  "sendMissingChunksAndReturnResult_go sample_env sample_activity [255] False sample_syncinfo =
     [EvCreateFormFile ''chunkdata'' ''chunkdata.bin'',
      EvWriteChunkData (Stored []) [255] (Perm sample_syncinfo),
      EvProgress 3 3, EvDispose ''chunks'', EvCloseMultipart, EvCloseCompressor,
      EvClosePipe None, EvReturnTransmissionToken,
      EvSetNodeInterested ''seller_seller.example'' False]"
  by (simp add: sendMissingChunksAndReturnResult_go_def sample_defs mustGetSellerId_def)

text \<open>
  C6, as the code has it. When the producer of the chunk-body push has written the chunk
  data and closed the multipart writer, the compressor and the pipe, all without error,
  it returns the transmission token and then sets the interested flag of the seller's
  assist node to false (or panics when the seller id cannot be made): both come after the
  whole request body, neither before. When one of the writes fails, the producer closes
  the pipe with the error and does neither.
\<close>

theorem sendMissingChunksAndReturnResult_go_order:
  "let tr = sendMissingChunksAndReturnResult_go env a w c si
   in if chunkdata_written env
      then (\<exists>body. tr = body @ [EvClosePipe None, EvReturnTransmissionToken] @
                     (case mustGetSellerId env a of
                        Returns sellerId \<Rightarrow> [EvSetNodeInterested sellerId False]
                      | Panics p \<Rightarrow> [EvPanic p]
                      | Blocks \<Rightarrow> [])
              \<and> EvWriteChunkData (workFile a) w (Perm si) \<in> set body
              \<and> EvCloseMultipart \<in> set body \<and> EvCloseCompressor \<in> set body
              \<and> EvReturnTransmissionToken \<notin> set body
              \<and> (\<forall>i b. EvSetNodeInterested i b \<notin> set body))
         \<and> \<not> token_returned_at_begin tr
      else EvReturnTransmissionToken \<notin> set tr
         \<and> (\<forall>i b. EvSetNodeInterested i b \<notin> set tr)
         \<and> (\<exists>e. last tr = EvClosePipe (Some e))"
proof (cases "chunkdata_written env")
  case True
  define body where "body =
     [EvCreateFormFile ''chunkdata'' ''chunkdata.bin'',
      EvWriteChunkData (workFile a) w (Perm si)] @
     map (\<lambda>(bytesToTransfer, bytesTransferred). EvProgress bytesToTransfer bytesTransferred)
       (WriteChunkData env (workFile a) w (Perm si)) @
     [EvDispose ''chunks'', EvCloseMultipart, EvCloseCompressor]"
  define tail where "tail = (case mustGetSellerId env a of
                        Returns sellerId \<Rightarrow> [EvSetNodeInterested sellerId False]
                      | Panics p \<Rightarrow> [EvPanic p]
                      | Blocks \<Rightarrow> [])"
  have tr: "sendMissingChunksAndReturnResult_go env a w c si
              = body @ [EvClosePipe None, EvReturnTransmissionToken] @ tail"
    using True
    by (simp add: sendMissingChunksAndReturnResult_go_def chunkdata_written_def body_def
        tail_def Let_def)
  have b: "EvWriteChunkData (workFile a) w (Perm si) \<in> set body"
    "EvCloseMultipart \<in> set body" "EvCloseCompressor \<in> set body"
    "EvReturnTransmissionToken \<notin> set body" "\<forall>i b. EvSetNodeInterested i b \<notin> set body"
    by (auto simp: body_def)
  have tw: "takeWhile (\<lambda>e. e \<noteq> EvReturnTransmissionToken)
              (body @ [EvClosePipe None, EvReturnTransmissionToken] @ tail)
            = body @ [EvClosePipe None]"
    using b(4) by (simp add: takeWhile_append)
  have "\<not> token_returned_at_begin (body @ [EvClosePipe None, EvReturnTransmissionToken] @ tail)"
    unfolding token_returned_at_begin_def tw
    using b(1) by (auto simp: list_ex_iff intro!: bexI [of _ "EvWriteChunkData (workFile a) w (Perm si)"])
  with True tr b show ?thesis
    unfolding Let_def tail_def by auto
next
  case False
  then show ?thesis
    by (auto simp: sendMissingChunksAndReturnResult_go_def chunkdata_written_def Let_def
        split: option.splits)
qed

theorem sendMissingChunksAndReturnResult_go_order_witness:
  "chunkdata_written sample_env
   \<and> (\<exists>body. sendMissingChunksAndReturnResult_go sample_env sample_activity [255] False
                sample_syncinfo
              = body @ [EvClosePipe None, EvReturnTransmissionToken] @
                  [EvSetNodeInterested ''seller_seller.example'' False]
        \<and> EvWriteChunkData (workFile sample_activity) [255] (Perm sample_syncinfo) \<in> set body
        \<and> EvReturnTransmissionToken \<notin> set body)"
proof -
  have w: "chunkdata_written sample_env"
    by (simp add: chunkdata_written_def sample_env_def)
  have m: "mustGetSellerId sample_env sample_activity = Returns ''seller_seller.example''"
    by (simp add: sample_defs mustGetSellerId_def)
  from sendMissingChunksAndReturnResult_go_order
         [of sample_env sample_activity "[255]" False sample_syncinfo] w m
  show ?thesis
    by (simp add: Let_def) blast
qed

text \<open>
  C6, as the claim has it, fails in the sample run: the producer writes the chunk data
  into the request body before it returns the token.
\<close>

theorem token_returned_at_begin_counterexample:
  "\<not> token_returned_at_begin
       (sendMissingChunksAndReturnResult_go sample_env sample_activity [255] False
          sample_syncinfo)"
  by (simp add: sample_chunkdata_trace token_returned_at_begin_def)


end
